theory Spec2Isabelle
  imports Complex_Main "HOL-Library.Sublist"
begin

section \<open>Python values, result records and exceptions\<close>

text \<open>
  The plate-plot module \<^verbatim>\<open>ddquint/visualization/plate_plots.py\<close> works on a list of
  result dictionaries. A field of such a dictionary holds an arbitrary Python object; the
  module only ever observes whether the object is \<^verbatim>\<open>None\<close>, whether it is a string,
  its truth value, its \<^verbatim>\<open>str()\<close> and whether it can be a dictionary key. Objects
  other than \<^verbatim>\<open>None\<close>, booleans, integers and strings (lists, dictionaries, data
  frames of the clustering stage) are therefore described by exactly these observations:
  \<open>PyOther truth hashable text\<close>. Such an object is neither a string nor a path-like
  object, and its truth value is defined (an object whose \<^verbatim>\<open>__bool__\<close> raises is not
  represented).

  Names of the source that start with an underscore are written without it.
\<close>

datatype pyval =
    PyNone
  | PyBool bool
  | PyInt int
  | PyStr string
  | PyOther bool bool string

datatype pyerr =
    ValueError
  | KeyError
  | TypeError
  | IndexError
  | OSError
  | ParserError
  | RenderError
  | VisualizationError pyerr

type_synonym pydict = "string \<rightharpoonup> pyval"

text \<open>\<^verbatim>\<open>bool(v)\<close>, the test of \<^verbatim>\<open>if v\<close> and \<^verbatim>\<open>if not v\<close>.\<close>

fun truthy :: "pyval \<Rightarrow> bool" where
  "truthy PyNone = False"
| "truthy (PyBool b) = b"
| "truthy (PyInt i) = (i \<noteq> 0)"
| "truthy (PyStr s) = (s \<noteq> [])"
| "truthy (PyOther t h s) = t"

text \<open>\<^verbatim>\<open>d.get(k)\<close> and \<^verbatim>\<open>d.get(k, default)\<close>.\<close>

definition dict_get :: "pydict \<Rightarrow> string \<Rightarrow> pyval" where
  "dict_get d k = (case d k of None \<Rightarrow> PyNone | Some v \<Rightarrow> v)"

definition dict_get_default :: "pydict \<Rightarrow> string \<Rightarrow> pyval \<Rightarrow> pyval" where
  "dict_get_default d k dflt = (case d k of None \<Rightarrow> dflt | Some v \<Rightarrow> v)"

text \<open>\<^verbatim>\<open>d[k]\<close>: a missing key raises \<^verbatim>\<open>KeyError\<close>.\<close>

definition dict_item :: "pydict \<Rightarrow> string \<Rightarrow> pyerr + pyval" where
  "dict_item d k = (case d k of None \<Rightarrow> Inl KeyError | Some v \<Rightarrow> Inr v)"

text \<open>\<^verbatim>\<open>del d[k]\<close> for a key that is present.\<close>

definition dict_del :: "pydict \<Rightarrow> string \<Rightarrow> pydict" where
  "dict_del d k = d(k := None)"

subsection \<open>Decimal text of integers, \<^verbatim>\<open>str()\<close> and \<^verbatim>\<open>int()\<close>\<close>

definition digit_char :: "nat \<Rightarrow> char" where
  "digit_char d = char_of (48 + d)"

fun nat_digits :: "nat \<Rightarrow> string" where
  "nat_digits n = (if n < 10 then [digit_char n] else nat_digits (n div 10) @ [digit_char (n mod 10)])"

declare nat_digits.simps [simp del]

definition int_text :: "int \<Rightarrow> string" where
  "int_text i = (if i < 0 then CHR ''-'' # nat_digits (nat (- i)) else nat_digits (nat i))"

text \<open>\<^verbatim>\<open>str(v)\<close>, as an f-string formats a value.\<close>

fun py_str :: "pyval \<Rightarrow> string" where
  "py_str PyNone = ''None''"
| "py_str (PyBool b) = (if b then ''True'' else ''False'')"
| "py_str (PyInt i) = int_text i"
| "py_str (PyStr s) = s"
| "py_str (PyOther t h s) = s"

definition is_digit :: "char \<Rightarrow> bool" where
  "is_digit c = ((48::nat) \<le> of_char c \<and> (of_char c :: nat) \<le> 57)"

definition is_space :: "char \<Rightarrow> bool" where
  "is_space c = ((of_char c :: nat) \<in> {9, 10, 11, 12, 13, 28, 29, 30, 31, 32})"

definition strip :: "string \<Rightarrow> string" where
  "strip s = rev (dropWhile is_space (rev (dropWhile is_space s)))"

text \<open>
  The digits of an integer literal: groups of decimal digits, separated by single
  underscores. \<open>digits_value acc s\<close> reads \<open>s\<close> after a digit.
\<close>

fun digits_value :: "nat \<Rightarrow> string \<Rightarrow> nat option" where
  "digits_value acc [] = Some acc"
| "digits_value acc [c] = (if is_digit c then Some (10 * acc + (of_char c - 48)) else None)"
| "digits_value acc (c # d # cs) =
     (if is_digit c then digits_value (10 * acc + (of_char c - 48)) (d # cs)
      else if c = CHR ''_'' \<and> is_digit d then digits_value acc (d # cs)
      else None)"

definition unsigned_value :: "string \<Rightarrow> nat option" where
  "unsigned_value s = (case s of [] \<Rightarrow> None | c # cs \<Rightarrow> if is_digit c then digits_value 0 s else None)"

text \<open>\<^verbatim>\<open>int(s)\<close> for an ASCII string \<open>s\<close>: \<^verbatim>\<open>ValueError\<close> when it is no integer literal.\<close>

definition py_int :: "string \<Rightarrow> pyerr + int" where
  "py_int s =
     (case strip s of
        [] \<Rightarrow> Inl ValueError
      | c # cs \<Rightarrow>
          if c = CHR ''-'' then (case unsigned_value cs of None \<Rightarrow> Inl ValueError | Some n \<Rightarrow> Inr (- int n))
          else if c = CHR ''+'' then (case unsigned_value cs of None \<Rightarrow> Inl ValueError | Some n \<Rightarrow> Inr (int n))
          else (case unsigned_value (c # cs) of None \<Rightarrow> Inl ValueError | Some n \<Rightarrow> Inr (int n)))"

subsection \<open>\<^verbatim>\<open>os.path\<close> on POSIX path strings\<close>

definition is_sep :: "char \<Rightarrow> bool" where
  "is_sep c = (c = CHR ''/'')"

text \<open>
  \<^verbatim>\<open>os.path.dirname(p)\<close>: the head is \<open>p\<close> up to and including its last slash; unless
  the head consists of slashes only, its trailing slashes are removed.
\<close>

definition dirname :: "string \<Rightarrow> string" where
  "dirname p =
     (let head = rev (dropWhile (\<lambda>c. \<not> is_sep c) (rev p))
      in if head \<noteq> [] \<and> \<not> list_all is_sep head then rev (dropWhile is_sep (rev head)) else head)"

definition join_step :: "string \<Rightarrow> string \<Rightarrow> string" where
  "join_step path b =
     (if b \<noteq> [] \<and> is_sep (hd b) then b
      else if path = [] \<or> is_sep (last path) then path @ b
      else path @ ''/'' @ b)"

text \<open>\<^verbatim>\<open>os.path.join(a, *p)\<close> on strings.\<close>

definition path_join :: "string \<Rightarrow> string list \<Rightarrow> string" where
  "path_join a ps = foldl join_step a ps"

text \<open>
  \<^verbatim>\<open>os.path.dirname\<close> and \<^verbatim>\<open>os.path.join\<close> on Python objects: an argument that is
  not a string raises \<^verbatim>\<open>TypeError\<close>.
\<close>

fun py_dirname :: "pyval \<Rightarrow> pyerr + string" where
  "py_dirname (PyStr s) = Inr (dirname s)"
| "py_dirname v = Inl TypeError"

fun as_path :: "pyval \<Rightarrow> pyerr + string" where
  "as_path (PyStr s) = Inr s"
| "as_path v = Inl TypeError"

section \<open>Configuration, environment and file system\<close>

text \<open>
  The class \<^verbatim>\<open>Config\<close> (\<^verbatim>\<open>ddquint/config\<close>) is not part of the sources at hand; the
  attributes the module reads are the fields of a record taken as a parameter.
  \<open>WELL_FORMAT row col\<close> stands for \<^verbatim>\<open>config.WELL_FORMAT.format(row=row, col=col)\<close>.
\<close>

record config =
  PLATE_ROWS :: "string list"
  PLATE_COLS :: "string list"
  WELL_FORMAT :: "string \<Rightarrow> int \<Rightarrow> string"
  RAW_DATA_DIR_NAME :: string
  GRAPHS_DIR_NAME :: string
  COMPOSITE_FIGURE_SIZE :: "nat \<times> nat"
  axis_limits :: "(int \<times> int) \<times> (int \<times> int)"
  grid_intervals :: "int \<times> int"

text \<open>
  Modelled from the spec: the plate layout of the configuration, which is not among the
  sources: a fixed 8 by 12 grid, rows A to H and columns 1 to 12.
\<close>

definition plate_rows :: "string list" where
  "plate_rows = map (\<lambda>c. [c]) ''ABCDEFGH''"

definition plate_cols :: "string list" where
  "plate_cols = map nat_digits [1..<13]"

subsection \<open>Data frames\<close>

datatype cell = NaN | Number real | Text string

record dataframe =
  df_columns :: "string list"
  df_rows :: "cell list list"

text \<open>A data frame is rectangular; a cell beyond the end of a row reads as missing.\<close>

definition cell_at :: "cell list \<Rightarrow> nat \<Rightarrow> cell" where
  "cell_at r i = (if i < length r then r ! i else NaN)"

definition column_indices :: "string list \<Rightarrow> string \<Rightarrow> nat list" where
  "column_indices cols c = filter (\<lambda>i. cols ! i = c) [0..<length cols]"

text \<open>\<^verbatim>\<open>df[cols]\<close>: for each requested label in turn, every column carrying it.\<close>

definition select_columns :: "dataframe \<Rightarrow> string list \<Rightarrow> dataframe" where
  "select_columns df cs =
     (let idx = concat (map (column_indices (df_columns df)) cs)
      in \<lparr> df_columns = map (\<lambda>i. df_columns df ! i) idx,
           df_rows = map (\<lambda>r. map (cell_at r) idx) (df_rows df) \<rparr>)"

text \<open>\<^verbatim>\<open>df.dropna()\<close>: the rows without a missing value, in their order.\<close>

definition dropna :: "dataframe \<Rightarrow> dataframe" where
  "dropna df = df\<lparr> df_rows := filter (list_all (\<lambda>c. c \<noteq> NaN)) (df_rows df) \<rparr>"

subsection \<open>Clustering results\<close>

record clustering =
  cr_df_filtered :: pyval
  cr_target_mapping :: pyval
  cr_counts :: pyval
  cr_copy_numbers :: pyval
  cr_copy_number_states :: pyval
  cr_has_aneuploidy :: pyval
  cr_has_buffer_zone :: pyval
  cr_chrom3_reclustered :: pyval

text \<open>The empty dictionary \<^verbatim>\<open>{}\<close>: false, unhashable.\<close>

definition empty_dict :: pyval where
  "empty_dict = PyOther False False ''{}''"

subsection \<open>The environment\<close>

text \<open>
  What the libraries and the operating system answer is not decided by the module; it is
  a parameter of every function that asks:
  \<^item> \<open>open_lines p\<close>: the lines of the text file \<open>p\<close> as \<^verbatim>\<open>open(p, 'r', encoding='utf-8',
    errors='ignore')\<close> yields them, \<open>None\<close> when opening or reading raises;
  \<^item> \<open>read_csv p n\<close>: \<^verbatim>\<open>pd.read_csv(p, skiprows=n)\<close>, a data frame or an exception;
  \<^item> \<open>makedirs_ok d\<close>: \<^verbatim>\<open>os.makedirs(d, exist_ok=True)\<close> does not raise;
  \<^item> \<open>create_well_plot_ok df cr well p\<close>: \<^verbatim>\<open>create_well_plot(df, cr, well, p,
    for_composite=True, add_copy_numbers=True)\<close> of \<^verbatim>\<open>well_plots\<close> (not among the
    sources) does not raise; it then has written the image file \<open>p\<close>;
  \<^item> \<open>fd_stat i\<close>: \<^verbatim>\<open>os.path.exists(i)\<close> for an integer, a file descriptor;
  \<^item> \<open>imread_ok v\<close>: \<^verbatim>\<open>plt.imread(v)\<close> and \<^verbatim>\<open>ax.imshow\<close> of its result do not raise;
  \<^item> \<open>savefig p\<close>: the exception that \<^verbatim>\<open>fig.savefig(p, ...)\<close> raises, \<open>None\<close> when it
    returns;
  \<^item> \<open>remove_ok p\<close>: \<^verbatim>\<open>os.remove(p)\<close> does not raise.
\<close>

record env =
  open_lines :: "string \<Rightarrow> string list option"
  read_csv :: "string \<Rightarrow> nat \<Rightarrow> pyerr + dataframe"
  makedirs_ok :: "string \<Rightarrow> bool"
  create_well_plot_ok :: "dataframe \<Rightarrow> clustering \<Rightarrow> pyval \<Rightarrow> string \<Rightarrow> bool"
  fd_stat :: "int \<Rightarrow> pyerr + bool"
  imread_ok :: "pyval \<Rightarrow> bool"
  savefig :: "string \<Rightarrow> pyerr option"
  remove_ok :: "string \<Rightarrow> bool"

subsection \<open>Axes and figures\<close>

text \<open>
  An axes object records what the module sets on it. \<open>ax_spines = Some (c, w)\<close>: every
  spine has colour and edge colour \<open>c\<close>, line width \<open>w\<close> and is visible; \<open>None\<close>: the
  spines are as the library created them. A text is the string with its colour (\<open>None\<close>:
  the default colour).

  The grid lines of an axes are drawn at its major ticks, and the major ticks of an axis
  are those of its major locator, of which there is one at a time:
  \<^verbatim>\<open>set_major_locator(MultipleLocator(b))\<close> puts a tick at every multiple of \<open>b\<close>, and
  \<^verbatim>\<open>set_xticks(ticks)\<close>, \<^verbatim>\<open>set_yticks(ticks)\<close> replace the locator of their axis by a
  \<^verbatim>\<open>FixedLocator\<close> over the ticks given. \<open>ax_grid\<close> is the switch set by
  \<^verbatim>\<open>ax.grid(True, ...)\<close>.
\<close>

datatype locator = AutoLocator | MultipleLocator int | FixedLocator "int list"

record axes =
  ax_position :: "nat \<times> nat"
  ax_facecolor :: "string option"
  ax_image :: "pyval option"
  ax_title :: "pyval option"
  ax_texts :: "(string \<times> string option) list"
  ax_spines :: "(string \<times> nat) option"
  ax_limits :: "((int \<times> int) \<times> (int \<times> int)) option"
  ax_grid :: bool
  ax_xlocator :: locator
  ax_ylocator :: locator

definition new_axes :: "nat \<times> nat \<Rightarrow> axes" where
  "new_axes pos = \<lparr> ax_position = pos, ax_facecolor = None, ax_image = None, ax_title = None,
     ax_texts = [], ax_spines = None, ax_limits = None, ax_grid = False,
     ax_xlocator = AutoLocator, ax_ylocator = AutoLocator \<rparr>"

text \<open>
  A figure: its axes in the order of their creation (\<^verbatim>\<open>fig.axes\<close>) and the plate labels
  added by \<^verbatim>\<open>fig.text\<close>, each with the index of the axes it is aligned with.
\<close>

record figure =
  fig_size :: "nat \<times> nat"
  fig_axes :: "axes list"
  fig_labels :: "(string \<times> nat) list"

text \<open>
  The state outside the program: the paths that exist (\<^verbatim>\<open>os.path.exists\<close>) and the
  figures saved by \<^verbatim>\<open>savefig\<close>, in the order of the calls.
\<close>

record world =
  fs :: "string set"
  saved :: "(string \<times> figure) list"

section \<open>Temporary well images\<close>

definition temp_graph_path :: string where
  "temp_graph_path = ''temp_graph_path''"

text \<open>
  \<^verbatim>\<open>_get_data_file_path\<close>. The body of the \<^verbatim>\<open>try\<close> evaluates the arguments of
  \<^verbatim>\<open>os.path.join\<close> from left to right; the handler catches \<^verbatim>\<open>KeyError\<close> and
  \<^verbatim>\<open>TypeError\<close> only, any other exception propagates.
\<close>

definition data_file_path_try :: "pydict \<Rightarrow> config \<Rightarrow> pyerr + string" where
  "data_file_path_try result cfg =
     (case dict_item result ''graph_path'' of Inl e \<Rightarrow> Inl e | Inr gp \<Rightarrow>
       (case py_dirname gp of Inl e \<Rightarrow> Inl e | Inr d \<Rightarrow>
         (case dict_item result ''filename'' of Inl e \<Rightarrow> Inl e | Inr fn \<Rightarrow>
           (case as_path fn of Inl e \<Rightarrow> Inl e | Inr f \<Rightarrow>
              Inr (path_join d [''..'', RAW_DATA_DIR_NAME cfg, f])))))"

definition get_data_file_path :: "pydict \<Rightarrow> config \<Rightarrow> pyerr + string option" where
  "get_data_file_path result cfg =
     (case data_file_path_try result cfg of
        Inr p \<Rightarrow> Inr (Some p)
      | Inl KeyError \<Rightarrow> Inr None
      | Inl TypeError \<Rightarrow> Inr None
      | Inl e \<Rightarrow> Inl e)"

text \<open>
  \<^verbatim>\<open>_load_and_clean_data\<close>. The header row is the index of the first line that holds a
  name of either spelling for both channels.
\<close>

definition is_header_line :: "string \<Rightarrow> bool" where
  "is_header_line line =
     ((sublist ''Ch1Amplitude'' line \<or> sublist ''Ch1 Amplitude'' line) \<and>
      (sublist ''Ch2Amplitude'' line \<or> sublist ''Ch2 Amplitude'' line))"

fun find_header_row :: "nat \<Rightarrow> string list \<Rightarrow> nat option" where
  "find_header_row i [] = None"
| "find_header_row i (line # rest) =
     (if is_header_line line then Some i else find_header_row (Suc i) rest)"

definition required_cols :: "string list" where
  "required_cols = [''Ch1Amplitude'', ''Ch2Amplitude'']"

definition load_and_clean_data :: "env \<Rightarrow> string \<Rightarrow> dataframe option" where
  "load_and_clean_data ev df_file =
     (case open_lines ev df_file of
        None \<Rightarrow> None
      | Some lines \<Rightarrow>
          (case find_header_row 0 lines of
             None \<Rightarrow> None
           | Some header_row \<Rightarrow>
               (case read_csv ev df_file header_row of
                  Inl e \<Rightarrow> None
                | Inr df \<Rightarrow>
                    if \<not> list_all (\<lambda>col. col \<in> set (df_columns df)) required_cols then None
                    else Some (dropna (select_columns df required_cols)))))"

definition extract_clustering_results :: "pydict \<Rightarrow> clustering" where
  "extract_clustering_results result =
     \<lparr> cr_df_filtered = dict_get result ''df_filtered'',
       cr_target_mapping = dict_get result ''target_mapping'',
       cr_counts = dict_get_default result ''counts'' empty_dict,
       cr_copy_numbers = dict_get_default result ''copy_numbers'' empty_dict,
       cr_copy_number_states = dict_get_default result ''copy_number_states'' empty_dict,
       cr_has_aneuploidy = dict_get_default result ''has_aneuploidy'' (PyBool False),
       cr_has_buffer_zone = dict_get_default result ''has_buffer_zone'' (PyBool False),
       cr_chrom3_reclustered = dict_get_default result ''chrom3_reclustered'' (PyBool False) \<rparr>"

definition validate_clustering_results :: "clustering \<Rightarrow> pyval \<Rightarrow> bool" where
  "validate_clustering_results cr well_id =
     (if cr_df_filtered cr = PyNone \<or> cr_target_mapping cr = PyNone then False else True)"

text \<open>
  \<^verbatim>\<open>_create_temp_well_plot\<close>: every exception of the body is caught and \<^verbatim>\<open>None\<close>
  returned. The directory made and the image written stay; the path is recorded in
  \<open>temp_files\<close> only after the image was written.
\<close>

definition create_temp_well_plot ::
  "env \<Rightarrow> config \<Rightarrow> pydict \<Rightarrow> string \<Rightarrow> dataframe \<Rightarrow> clustering \<Rightarrow> world \<Rightarrow> string list
    \<Rightarrow> string option \<times> world \<times> string list" where
  "create_temp_well_plot ev cfg result output_path df_clean cr w temp_files =
     (let output_dir = dirname output_path;
          graphs_dir = path_join output_dir [GRAPHS_DIR_NAME cfg]
      in if \<not> makedirs_ok ev graphs_dir then (None, w, temp_files)
         else
           (let w1 = w\<lparr> fs := insert graphs_dir (fs w) \<rparr>
            in (case dict_item result ''well'' of
                  Inl e \<Rightarrow> (None, w1, temp_files)
                | Inr well \<Rightarrow>
                    (let temp_path = path_join graphs_dir [py_str well @ ''_temp.png'']
                     in if \<not> create_well_plot_ok ev df_clean cr well temp_path
                        then (None, w1, temp_files)
                        else (Some temp_path, w1\<lparr> fs := insert temp_path (fs w1) \<rparr>,
                              temp_files @ [temp_path])))))"

text \<open>
  The body of the loop of \<^verbatim>\<open>_generate_well_images\<close> for one result. An exception
  leaves the loop before anything was changed.
\<close>

definition generate_well_image ::
  "env \<Rightarrow> config \<Rightarrow> string \<Rightarrow> pydict \<Rightarrow> world \<Rightarrow> string list
    \<Rightarrow> pyerr + (pydict \<times> world \<times> string list)" where
  "generate_well_image ev cfg output_path result w temp_files =
     (if \<not> truthy (dict_get result ''well'') then Inr (result, w, temp_files)
      else
        (case get_data_file_path result cfg of
           Inl e \<Rightarrow> Inl e
         | Inr None \<Rightarrow> Inr (result, w, temp_files)
         | Inr (Some df_file) \<Rightarrow>
             (if df_file = [] \<or> df_file \<notin> fs w then Inr (result, w, temp_files)
              else
                (case load_and_clean_data ev df_file of
                   None \<Rightarrow> Inr (result, w, temp_files)
                 | Some df_clean \<Rightarrow>
                     (let cr = extract_clustering_results result
                      in (case dict_item result ''well'' of
                            Inl e \<Rightarrow> Inl e
                          | Inr well_id \<Rightarrow>
                              (if \<not> validate_clustering_results cr well_id
                               then Inr (result, w, temp_files)
                               else
                                 (case create_temp_well_plot ev cfg result output_path df_clean
                                         cr w temp_files of
                                    (None, w', tfs') \<Rightarrow> Inr (result, w', tfs')
                                  | (Some temp_path, w', tfs') \<Rightarrow>
                                      (if temp_path \<noteq> []
                                       then Inr (result(temp_graph_path \<mapsto> PyStr temp_path),
                                                 w', tfs')
                                       else Inr (result, w', tfs'))))))))))"

text \<open>
  \<^verbatim>\<open>_generate_well_images\<close>: the results are changed in place, so the list, the world and
  \<open>temp_files\<close> are returned also when an exception (the first component) ends the loop.
  Distinct entries of the list are distinct dictionaries.
\<close>

fun generate_well_images ::
  "env \<Rightarrow> config \<Rightarrow> string \<Rightarrow> pydict list \<Rightarrow> world \<Rightarrow> string list
    \<Rightarrow> pyerr option \<times> pydict list \<times> world \<times> string list" where
  "generate_well_images ev cfg output_path [] w temp_files = (None, [], w, temp_files)"
| "generate_well_images ev cfg output_path (result # rest) w temp_files =
     (case generate_well_image ev cfg output_path result w temp_files of
        Inl e \<Rightarrow> (Some e, result # rest, w, temp_files)
      | Inr (result', w', tfs') \<Rightarrow>
          (case generate_well_images ev cfg output_path rest w' tfs' of
             (exc, rest', w'', tfs'') \<Rightarrow> (exc, result' # rest', w'', tfs'')))"

section \<open>The composite figure\<close>

text \<open>
  The dictionary \<open>well_results\<close> of \<^verbatim>\<open>_create_composite_figure\<close>, built by the
  comprehension \<^verbatim>\<open>{r['well']: r for r in results if r.get('well') is not None}\<close>. Every
  lookup is by a string that \<^verbatim>\<open>WELL_FORMAT.format\<close> produced, so the model keeps the
  entries under string keys; a key of another type is stored by Python and never looked
  up. A key that is not hashable raises \<^verbatim>\<open>TypeError\<close>.
\<close>

fun hashable :: "pyval \<Rightarrow> bool" where
  "hashable (PyOther t h s) = h"
| "hashable v = True"

fun store_well :: "(string \<rightharpoonup> pydict) \<Rightarrow> pyval \<Rightarrow> pydict \<Rightarrow> (string \<rightharpoonup> pydict)" where
  "store_well m (PyStr s) r = m(s \<mapsto> r)"
| "store_well m k r = m"

fun build_well_results ::
  "pydict list \<Rightarrow> (string \<rightharpoonup> pydict) \<Rightarrow> pyerr + (string \<rightharpoonup> pydict)" where
  "build_well_results [] m = Inr m"
| "build_well_results (r # rs) m =
     (if dict_get r ''well'' = PyNone then build_well_results rs m
      else
        (case dict_item r ''well'' of
           Inl e \<Rightarrow> Inl e
         | Inr k \<Rightarrow>
             (if \<not> hashable k then Inl TypeError
              else build_well_results rs (store_well m k r))))"

text \<open>
  \<^verbatim>\<open>os.path.exists\<close> on a Python object: a string is a path, an integer (a boolean is
  one) a file descriptor, anything else raises \<^verbatim>\<open>TypeError\<close>.
\<close>

fun os_path_exists :: "env \<Rightarrow> world \<Rightarrow> pyval \<Rightarrow> pyerr + bool" where
  "os_path_exists ev w (PyStr s) = Inr (s \<in> fs w)"
| "os_path_exists ev w (PyInt i) = fd_stat ev i"
| "os_path_exists ev w (PyBool b) = fd_stat ev (if b then 1 else 0)"
| "os_path_exists ev w v = Inl TypeError"

text \<open>\<^verbatim>\<open>_apply_well_border\<close>: the buffer zone is tested first.\<close>

definition apply_well_border :: "axes \<Rightarrow> pydict \<Rightarrow> axes" where
  "apply_well_border ax result =
     (let (border_color, border_width) =
            (if truthy (dict_get_default result ''has_buffer_zone'' (PyBool False))
             then (''#000000'', 1::nat)
             else if truthy (dict_get_default result ''has_aneuploidy'' (PyBool False))
             then (''#E6B8E6'', 3)
             else (''#B0B0B0'', 1))
      in ax\<lparr> ax_spines := Some (border_color, border_width) \<rparr>)"

definition add_text :: "axes \<Rightarrow> string \<Rightarrow> string option \<Rightarrow> axes" where
  "add_text ax s colour = ax\<lparr> ax_texts := ax_texts ax @ [(s, colour)] \<rparr>"

text \<open>
  \<^verbatim>\<open>_populate_data_well\<close>. The test \<^verbatim>\<open>graph_path and os.path.exists(graph_path)\<close>
  stands outside the \<^verbatim>\<open>try\<close>: an exception of \<^verbatim>\<open>os.path.exists\<close> propagates. Inside
  the \<^verbatim>\<open>try\<close>, a failure to read or show the image leaves the axes without image,
  title and border, with the red text.
\<close>

definition populate_data_well ::
  "env \<Rightarrow> world \<Rightarrow> axes \<Rightarrow> string \<Rightarrow> pydict \<Rightarrow> pyerr + axes" where
  "populate_data_well ev w ax well result =
     (let graph_path = dict_get_default result temp_graph_path (dict_get result ''graph_path'')
      in if \<not> truthy graph_path then Inr (add_text ax ''No Image'' None)
         else
           (case os_path_exists ev w graph_path of
              Inl e \<Rightarrow> Inl e
            | Inr False \<Rightarrow> Inr (add_text ax ''No Image'' None)
            | Inr True \<Rightarrow>
                (if \<not> imread_ok ev graph_path
                 then Inr (add_text ax ''Image Error'' (Some ''red''))
                 else
                   (let sample_name = dict_get result ''sample_name'';
                        title = (if truthy sample_name then sample_name else PyStr well)
                    in Inr (apply_well_border
                              (ax\<lparr> ax_image := Some graph_path, ax_title := Some title \<rparr>)
                              result)))))"

text \<open>
  \<^verbatim>\<open>_populate_empty_well\<close>: the limits, the grid switched on, a \<^verbatim>\<open>MultipleLocator\<close> of
  the configured interval on each axis, the well id in gray and the border. The length of
  the tick marks (\<^verbatim>\<open>tick_params\<close>) and the aspect are not recorded.
\<close>

definition populate_empty_well :: "config \<Rightarrow> axes \<Rightarrow> string \<Rightarrow> axes" where
  "populate_empty_well cfg ax well =
     (add_text (ax\<lparr> ax_limits := Some (axis_limits cfg), ax_grid := True,
                   ax_xlocator := MultipleLocator (fst (grid_intervals cfg)),
                   ax_ylocator := MultipleLocator (snd (grid_intervals cfg)) \<rparr>)
        well (Some ''gray''))
       \<lparr> ax_spines := Some (''#cccccc'', 1) \<rparr>"

text \<open>
  The body of the inner loop of \<^verbatim>\<open>_create_well_subplots\<close> at row index \<open>i\<close> and column
  index \<open>j\<close>; the grid \<^verbatim>\<open>gs\<close> has 8 rows and 12 columns, an index beyond it raises
  \<^verbatim>\<open>IndexError\<close>. The closing \<^verbatim>\<open>ax.set_xticks([])\<close> and \<^verbatim>\<open>ax.set_yticks([])\<close> run for
  every subplot, after it was populated, and leave each axis with a locator without
  ticks.
\<close>

definition well_subplot ::
  "env \<Rightarrow> config \<Rightarrow> world \<Rightarrow> (string \<rightharpoonup> pydict) \<Rightarrow> nat \<Rightarrow> string \<Rightarrow> nat \<Rightarrow> pyerr + axes" where
  "well_subplot ev cfg w well_results i row j =
     (let well = WELL_FORMAT cfg row (int j + 1)
      in if 8 \<le> i \<or> 12 \<le> j then Inl IndexError
         else
           (let ax = (new_axes (i, j))\<lparr> ax_facecolor := Some ''#f5f5f5'' \<rparr>
            in (case (case well_results well of
                        Some result \<Rightarrow> populate_data_well ev w ax well result
                      | None \<Rightarrow> Inr (populate_empty_well cfg ax well)) of
                  Inl e \<Rightarrow> Inl e
                | Inr ax' \<Rightarrow>
                    Inr (ax'\<lparr> ax_xlocator := FixedLocator [], ax_ylocator := FixedLocator [] \<rparr>))))"

fun row_subplots ::
  "env \<Rightarrow> config \<Rightarrow> world \<Rightarrow> (string \<rightharpoonup> pydict) \<Rightarrow> nat \<Rightarrow> string \<Rightarrow> nat list
    \<Rightarrow> pyerr + axes list" where
  "row_subplots ev cfg w well_results i row [] = Inr []"
| "row_subplots ev cfg w well_results i row (j # js) =
     (case well_subplot ev cfg w well_results i row j of
        Inl e \<Rightarrow> Inl e
      | Inr ax \<Rightarrow>
          (case row_subplots ev cfg w well_results i row js of
             Inl e \<Rightarrow> Inl e
           | Inr axs \<Rightarrow> Inr (ax # axs)))"

fun all_subplots ::
  "env \<Rightarrow> config \<Rightarrow> world \<Rightarrow> (string \<rightharpoonup> pydict) \<Rightarrow> nat \<Rightarrow> string list \<Rightarrow> nat
    \<Rightarrow> pyerr + axes list" where
  "all_subplots ev cfg w well_results i [] n = Inr []"
| "all_subplots ev cfg w well_results i (row # rows) n =
     (case row_subplots ev cfg w well_results i row [0..<n] of
        Inl e \<Rightarrow> Inl e
      | Inr axs \<Rightarrow>
          (case all_subplots ev cfg w well_results (Suc i) rows n of
             Inl e \<Rightarrow> Inl e
           | Inr rest \<Rightarrow> Inr (axs @ rest)))"

text \<open>
  \<^verbatim>\<open>_create_well_subplots\<close>: the number of columns is \<^verbatim>\<open>int(col_labels[-1])\<close>, read
  when the first row starts.
\<close>

definition create_well_subplots ::
  "env \<Rightarrow> config \<Rightarrow> world \<Rightarrow> string list \<Rightarrow> string list \<Rightarrow> (string \<rightharpoonup> pydict)
    \<Rightarrow> pyerr + axes list" where
  "create_well_subplots ev cfg w row_labels col_labels well_results =
     (if row_labels = [] then Inr []
      else if col_labels = [] then Inl IndexError
      else
        (case py_int (last col_labels) of
           Inl e \<Rightarrow> Inl e
         | Inr n \<Rightarrow> all_subplots ev cfg w well_results 0 row_labels (nat n)))"

text \<open>
  \<^verbatim>\<open>_add_plate_labels\<close>: the label of row \<open>i\<close> is aligned with \<^verbatim>\<open>fig.axes[i * 12]\<close>, the
  label of column \<open>j\<close> with \<^verbatim>\<open>fig.axes[j]\<close>.
\<close>

definition add_plate_labels ::
  "axes list \<Rightarrow> string list \<Rightarrow> string list \<Rightarrow> pyerr + (string \<times> nat) list" where
  "add_plate_labels axs row_labels col_labels =
     (if list_ex (\<lambda>i. length axs \<le> i * 12) [0..<length row_labels] then Inl IndexError
      else if list_ex (\<lambda>j. length axs \<le> j) [0..<length col_labels] then Inl IndexError
      else Inr (zip row_labels (map (\<lambda>i. i * 12) [0..<length row_labels]) @
                zip col_labels [0..<length col_labels]))"

text \<open>\<^verbatim>\<open>_create_composite_figure\<close>: the world changes only when the figure is saved.\<close>

definition create_composite_figure ::
  "env \<Rightarrow> config \<Rightarrow> pydict list \<Rightarrow> string \<Rightarrow> string list \<Rightarrow> string list \<Rightarrow> world
    \<Rightarrow> pyerr + world" where
  "create_composite_figure ev cfg results output_path row_labels col_labels w =
     (case build_well_results results Map.empty of
        Inl e \<Rightarrow> Inl e
      | Inr well_results \<Rightarrow>
          (case create_well_subplots ev cfg w row_labels col_labels well_results of
             Inl e \<Rightarrow> Inl e
           | Inr axs \<Rightarrow>
               (case add_plate_labels axs row_labels col_labels of
                  Inl e \<Rightarrow> Inl e
                | Inr labels \<Rightarrow>
                    (case savefig ev output_path of
                       Some e \<Rightarrow> Inl e
                     | None \<Rightarrow>
                         Inr (w\<lparr> fs := insert output_path (fs w),
                                saved := saved w @
                                  [(output_path,
                                    \<lparr> fig_size = COMPOSITE_FIGURE_SIZE cfg, fig_axes = axs,
                                      fig_labels = labels \<rparr>)] \<rparr>)))))"

section \<open>Cleanup and the entry point\<close>

text \<open>
  \<^verbatim>\<open>_cleanup_temp_files\<close>: a file that exists is removed; when \<^verbatim>\<open>os.remove\<close> raises the
  exception is logged and the file stays.
\<close>

fun remove_temp_files :: "env \<Rightarrow> string list \<Rightarrow> world \<Rightarrow> world" where
  "remove_temp_files ev [] w = w"
| "remove_temp_files ev (temp_file # rest) w =
     remove_temp_files ev rest
       (if temp_file \<in> fs w \<and> remove_ok ev temp_file then w\<lparr> fs := fs w - {temp_file} \<rparr>
        else w)"

definition clear_temp_reference :: "pydict \<Rightarrow> pydict" where
  "clear_temp_reference result =
     (if temp_graph_path \<in> dom result then dict_del result temp_graph_path else result)"

definition cleanup_temp_files ::
  "env \<Rightarrow> string list \<Rightarrow> pydict list \<Rightarrow> world \<Rightarrow> pydict list \<times> world" where
  "cleanup_temp_files ev temp_files results w =
     (map clear_temp_reference results, remove_temp_files ev temp_files w)"

text \<open>
  \<^verbatim>\<open>create_composite_image\<close>: the outcome (the path returned or the exception raised),
  the results as the call leaves them and the world.
\<close>

definition create_composite_image ::
  "env \<Rightarrow> config \<Rightarrow> pydict list \<Rightarrow> string \<Rightarrow> world \<Rightarrow> (pyerr + string) \<times> pydict list \<times> world" where
  "create_composite_image ev cfg results output_path w =
     (if results = [] then (Inl ValueError, results, w)
      else
        (case generate_well_images ev cfg output_path results w [] of
           (exc, results1, w1, temp_files) \<Rightarrow>
             (let (outcome, w2) =
                    (case exc of
                       Some e \<Rightarrow> (Inl (VisualizationError e), w1)
                     | None \<Rightarrow>
                         (case create_composite_figure ev cfg results1 output_path
                                 (PLATE_ROWS cfg) (PLATE_COLS cfg) w1 of
                            Inl e \<Rightarrow> (Inl (VisualizationError e), w1)
                          | Inr w' \<Rightarrow> (Inr output_path, w')));
                  (results2, w3) = cleanup_temp_files ev temp_files results1 w2
              in (outcome, results2, w3))))"

section \<open>Sample inputs\<close>

text \<open>
  One environment, configuration, result record and world, used for the closed instances
  of the theorems below: a well A01 whose raw data file and graph exist, with a
  three-line export file whose second line is the header.
\<close>

definition demo_env :: env where
  "demo_env =
     \<lparr> open_lines = (\<lambda>p. if p = ''run/Graphs/../Raw Data/A01.csv''
                           then Some [''Plate export'', ''Well,Ch1Amplitude,Ch2Amplitude'', ''A01,1,2'']
                           else None),
       read_csv = (\<lambda>p n. Inr \<lparr> df_columns = [''Well'', ''Ch1Amplitude'', ''Ch2Amplitude''],
                                df_rows = [[Text ''A01'', Number 1, Number 2],
                                           [Text ''A01'', NaN, Number 3]] \<rparr>),
       makedirs_ok = (\<lambda>d. True),
       create_well_plot_ok = (\<lambda>df cr well p. True),
       fd_stat = (\<lambda>i. Inr False),
       imread_ok = (\<lambda>v. True),
       savefig = (\<lambda>p. None),
       remove_ok = (\<lambda>p. True) \<rparr>"

definition demo_config :: config where
  "demo_config =
     \<lparr> PLATE_ROWS = plate_rows, PLATE_COLS = plate_cols,
       WELL_FORMAT = (\<lambda>row col. row @ (if col < 10 then ''0'' else []) @ int_text col),
       RAW_DATA_DIR_NAME = ''Raw Data'', GRAPHS_DIR_NAME = ''Graphs'',
       COMPOSITE_FIGURE_SIZE = (24, 16), axis_limits = ((0, 3000), (0, 5000)),
       grid_intervals = (500, 1000) \<rparr>"

definition demo_result :: pydict where
  "demo_result =
     [''well'' \<mapsto> PyStr ''A01'', ''graph_path'' \<mapsto> PyStr ''run/Graphs/A01.png'',
      ''filename'' \<mapsto> PyStr ''A01.csv'', ''df_filtered'' \<mapsto> PyOther True False ''df'',
      ''target_mapping'' \<mapsto> PyOther True False ''{1: 2}'',
      ''has_aneuploidy'' \<mapsto> PyBool True]"

definition demo_world :: world where
  "demo_world = \<lparr> fs = {''run/Graphs/A01.png'', ''run/Graphs/../Raw Data/A01.csv''}, saved = [] \<rparr>"

text \<open>
  Two variants of the environment: one where \<^verbatim>\<open>os.remove\<close> always raises, one where
  \<^verbatim>\<open>savefig\<close> always raises.
\<close>

definition stuck_env :: env where
  "stuck_env = demo_env\<lparr> remove_ok := (\<lambda>p. False) \<rparr>"


definition unparsed_env :: env where
  "unparsed_env = demo_env\<lparr> read_csv := (\<lambda>p n. Inl ParserError) \<rparr>"




section \<open>Temporary well images: no exception, no change but the transient key\<close>

lemma data_file_path_try_err:
  "data_file_path_try r cfg = Inl e \<Longrightarrow> e = KeyError \<or> e = TypeError"
  by (auto simp: data_file_path_try_def dict_item_def split: option.splits sum.splits pyval.splits
      elim!: py_dirname.elims as_path.elims)

lemma get_data_file_path_total: "\<exists>p. get_data_file_path r cfg = Inr p"
proof (cases "data_file_path_try r cfg")
  case (Inl e)
  then show ?thesis
    using data_file_path_try_err [OF Inl] by (auto simp: get_data_file_path_def)
next
  case (Inr p)
  then show ?thesis by (simp add: get_data_file_path_def)
qed

lemma truthy_well_item:
  "truthy (dict_get r ''well'') \<Longrightarrow> \<exists>v. dict_item r ''well'' = Inr v"
  by (auto simp: dict_get_def dict_item_def split: option.splits)

lemma generate_well_image_total:
  "\<exists>r' w' tfs'. generate_well_image ev cfg out r w tfs = Inr (r', w', tfs')"
proof (cases "truthy (dict_get r ''well'')")
  case False
  then show ?thesis by (simp add: generate_well_image_def)
next
  case True
  obtain p where p: "get_data_file_path r cfg = Inr p"
    using get_data_file_path_total by blast
  obtain v where v: "dict_item r ''well'' = Inr v"
    using truthy_well_item [OF True] by blast
  show ?thesis
    using True p v
    by (auto simp: generate_well_image_def Let_def split: option.splits prod.splits)
qed

lemma generate_well_images_no_exception:
  "fst (generate_well_images ev cfg out rs w tfs) = None"
proof (induction rs arbitrary: w tfs)
  case Nil
  then show ?case by simp
next
  case (Cons r rs)
  obtain r' w' tfs' where s: "generate_well_image ev cfg out r w tfs = Inr (r', w', tfs')"
    using generate_well_image_total by blast
  show ?case
    using Cons.IH [of w' tfs'] s by (auto split: prod.splits)
qed

lemma generate_well_images_length:
  "length (fst (snd (generate_well_images ev cfg out rs w tfs))) = length rs"
proof (induction rs arbitrary: w tfs)
  case Nil
  then show ?case by simp
next
  case (Cons r rs)
  obtain r' w' tfs' where s: "generate_well_image ev cfg out r w tfs = Inr (r', w', tfs')"
    using generate_well_image_total by blast
  show ?case
    using Cons.IH [of w' tfs'] s by (auto split: prod.splits)
qed

lemma saved_create_temp_well_plot:
  "create_temp_well_plot ev cfg r out df cr w tfs = (tp, w', tfs') \<Longrightarrow> saved w' = saved w"
  by (auto simp: create_temp_well_plot_def Let_def split: if_splits sum.splits)

lemma generate_well_image_saved:
  "generate_well_image ev cfg out r w tfs = Inr (r', w', tfs') \<Longrightarrow> saved w' = saved w"
  by (auto simp: generate_well_image_def Let_def
      split: if_splits sum.splits option.splits prod.splits
      dest: saved_create_temp_well_plot)

lemma generate_well_images_saved:
  "saved (fst (snd (snd (generate_well_images ev cfg out rs w tfs)))) = saved w"
proof (induction rs arbitrary: w tfs)
  case Nil
  then show ?case by simp
next
  case (Cons r rs)
  obtain r' w' tfs' where s: "generate_well_image ev cfg out r w tfs = Inr (r', w', tfs')"
    using generate_well_image_total by blast
  show ?case
    using Cons.IH [of w' tfs'] s generate_well_image_saved [OF s]
    by (auto split: prod.splits)
qed

lemma clear_temp_reference_eq:
  "clear_temp_reference r = r(temp_graph_path := None)"
  by (auto simp: clear_temp_reference_def dict_del_def fun_eq_iff)

lemma generate_well_image_frame:
  "generate_well_image ev cfg out r w tfs = Inr (r', w', tfs') \<Longrightarrow>
     clear_temp_reference r' = clear_temp_reference r"
  unfolding clear_temp_reference_eq
  by (auto simp: generate_well_image_def Let_def
      split: if_splits sum.splits option.splits prod.splits)

lemma generate_well_images_frame:
  "map clear_temp_reference (fst (snd (generate_well_images ev cfg out rs w tfs))) =
   map clear_temp_reference rs"
proof (induction rs arbitrary: w tfs)
  case Nil
  then show ?case by simp
next
  case (Cons r rs)
  obtain r' w' tfs' where s: "generate_well_image ev cfg out r w tfs = Inr (r', w', tfs')"
    using generate_well_image_total by blast
  show ?case
    using Cons.IH [of w' tfs'] s generate_well_image_frame [OF s]
    by (auto split: prod.splits)
qed

lemma bad_path_fields:
  assumes "r ''graph_path'' = None \<or> (\<exists>v. r ''graph_path'' = Some v \<and> (\<forall>s. v \<noteq> PyStr s)) \<or>
           r ''filename'' = None \<or> (\<exists>v. r ''filename'' = Some v \<and> (\<forall>s. v \<noteq> PyStr s))"
  shows "get_data_file_path r cfg = Inr None"
proof -
  have "\<exists>e. data_file_path_try r cfg = Inl e"
    using assms
    by (auto simp: data_file_path_try_def dict_item_def split: option.splits sum.splits
        elim!: py_dirname.elims as_path.elims)
  then obtain e where e: "data_file_path_try r cfg = Inl e" by blast
  show ?thesis
    using e data_file_path_try_err [OF e] by (auto simp: get_data_file_path_def)
qed

lemma missing_clustering_skipped:
  assumes "dict_get r ''df_filtered'' = PyNone \<or> dict_get r ''target_mapping'' = PyNone"
  shows "generate_well_image ev cfg out r w tfs = Inr (r, w, tfs)"
proof (cases "truthy (dict_get r ''well'')")
  case False
  then show ?thesis by (simp add: generate_well_image_def)
next
  case True
  obtain p where p: "get_data_file_path r cfg = Inr p"
    using get_data_file_path_total by blast
  obtain v where v: "dict_item r ''well'' = Inr v"
    using truthy_well_item [OF True] by blast
  have nv: "\<not> validate_clustering_results (extract_clustering_results r) v"
    using assms by (auto simp: validate_clustering_results_def extract_clustering_results_def)
  show ?thesis
    using True p v nv
    by (auto simp: generate_well_image_def Let_def split: option.splits)
qed

lemma malformed_step:
  assumes "\<not> truthy (dict_get r ''well'') \<or>
           r ''graph_path'' = None \<or> (\<exists>v. r ''graph_path'' = Some v \<and> (\<forall>s. v \<noteq> PyStr s)) \<or>
           r ''filename'' = None \<or> (\<exists>v. r ''filename'' = Some v \<and> (\<forall>s. v \<noteq> PyStr s)) \<or>
           dict_get r ''df_filtered'' = PyNone \<or> dict_get r ''target_mapping'' = PyNone"
  shows "generate_well_image ev cfg out r w tfs = Inr (r, w, tfs)"
proof -
  consider (well) "\<not> truthy (dict_get r ''well'')"
    | (path) "r ''graph_path'' = None \<or> (\<exists>v. r ''graph_path'' = Some v \<and> (\<forall>s. v \<noteq> PyStr s)) \<or>
              r ''filename'' = None \<or> (\<exists>v. r ''filename'' = Some v \<and> (\<forall>s. v \<noteq> PyStr s))"
    | (clus) "dict_get r ''df_filtered'' = PyNone \<or> dict_get r ''target_mapping'' = PyNone"
    using assms by blast
  then show ?thesis
  proof cases
    case well
    then show ?thesis by (simp add: generate_well_image_def)
  next
    case path
    show ?thesis
      using bad_path_fields [OF path, of cfg] by (simp add: generate_well_image_def)
  next
    case clus
    then show ?thesis by (rule missing_clustering_skipped)
  qed
qed

lemma malformed_loop:
  assumes "i < length rs"
    and "generate_well_image ev cfg out (rs ! i) = (\<lambda>w tfs. Inr (rs ! i, w, tfs))"
  shows "fst (snd (generate_well_images ev cfg out rs w tfs)) ! i = rs ! i"
  using assms
proof (induction rs arbitrary: i w tfs)
  case Nil
  then show ?case by simp
next
  case (Cons r rs)
  obtain r' w' tfs' where s: "generate_well_image ev cfg out r w tfs = Inr (r', w', tfs')"
    using generate_well_image_total by blast
  show ?case
  proof (cases i)
    case 0
    with Cons.prems s have "r' = r" by (simp add: fun_eq_iff)
    with 0 s show ?thesis by (auto split: prod.splits)
  next
    case (Suc k)
    with Cons.prems have k: "k < length rs"
      and step: "generate_well_image ev cfg out (rs ! k) = (\<lambda>w tfs. Inr (rs ! k, w, tfs))"
      by simp_all
    show ?thesis
      using Cons.IH [OF k step, of w' tfs'] s Suc by (auto split: prod.splits)
  qed
qed

text \<open>
  C10. A malformed result record (its \<open>well\<close> missing or false; its \<open>graph_path\<close> or
  \<open>filename\<close> missing or not a string; its \<open>df_filtered\<close> or \<open>target_mapping\<close> equal
  to \<^verbatim>\<open>None\<close>) is skipped by the generation of the temporary images: the loop ends
  without an exception, the record is the same afterwards (so it has received no
  \<open>temp_graph_path\<close>), and its step changes neither the world nor \<open>temp_files\<close>.
\<close>

theorem malformed_record_skipped:
  assumes "i < length results"
    and "\<not> truthy (dict_get (results ! i) ''well'') \<or>
         (results ! i) ''graph_path'' = None \<or>
         (\<exists>v. (results ! i) ''graph_path'' = Some v \<and> (\<forall>s. v \<noteq> PyStr s)) \<or>
         (results ! i) ''filename'' = None \<or>
         (\<exists>v. (results ! i) ''filename'' = Some v \<and> (\<forall>s. v \<noteq> PyStr s)) \<or>
         dict_get (results ! i) ''df_filtered'' = PyNone \<or>
         dict_get (results ! i) ''target_mapping'' = PyNone"
  shows "fst (generate_well_images ev cfg out results w tfs) = None \<and>
         fst (snd (generate_well_images ev cfg out results w tfs)) ! i = results ! i \<and>
         (\<forall>w0 tfs0. generate_well_image ev cfg out (results ! i) w0 tfs0 =
                       Inr (results ! i, w0, tfs0))"
proof -
  have step: "generate_well_image ev cfg out (results ! i) w0 tfs0 = Inr (results ! i, w0, tfs0)"
    for w0 tfs0
    using assms(2) by (rule malformed_step)
  then have "generate_well_image ev cfg out (results ! i) = (\<lambda>w tfs. Inr (results ! i, w, tfs))"
    by (simp add: fun_eq_iff)
  from malformed_loop [OF assms(1) this] step generate_well_images_no_exception
  show ?thesis by blast
qed

theorem malformed_record_skipped_witness:
  "fst (generate_well_images demo_env demo_config ''run/plate.png''
          [[''well'' \<mapsto> PyStr ''B02'', ''graph_path'' \<mapsto> PyInt 7]] demo_world []) = None \<and>
   fst (snd (generate_well_images demo_env demo_config ''run/plate.png''
          [[''well'' \<mapsto> PyStr ''B02'', ''graph_path'' \<mapsto> PyInt 7]] demo_world [])) ! 0 =
     [''well'' \<mapsto> PyStr ''B02'', ''graph_path'' \<mapsto> PyInt 7]"
  using malformed_record_skipped [of 0 "[[''well'' \<mapsto> PyStr ''B02'', ''graph_path'' \<mapsto> PyInt 7]]"
      demo_env demo_config "''run/plate.png''" demo_world "[]"]
  by simp

section \<open>The entry point: outcome, cleanup and frame\<close>

lemma create_composite_figure_world:
  "create_composite_figure ev cfg rs out rows cols w = Inr w' \<Longrightarrow>
     fs w' = insert out (fs w) \<and> (\<exists>fig. saved w' = saved w @ [(out, fig)]) \<and>
     savefig ev out = None"
  by (auto simp: create_composite_figure_def split: sum.splits option.splits)

lemma remove_temp_files_saved: "saved (remove_temp_files ev tfs w) = saved w"
  by (induction tfs arbitrary: w) auto

lemma remove_temp_files_subset: "fs (remove_temp_files ev tfs w) \<subseteq> fs w"
proof (induction tfs arbitrary: w)
  case Nil
  then show ?case by simp
next
  case (Cons t tfs)
  show ?case
    using Cons.IH [of "if t \<in> fs w \<and> remove_ok ev t then w\<lparr> fs := fs w - {t} \<rparr> else w"]
    by (auto split: if_splits)
qed

lemma remove_temp_files_removed:
  "p \<in> set tfs \<Longrightarrow> remove_ok ev p \<Longrightarrow> p \<notin> fs (remove_temp_files ev tfs w)"
proof (induction tfs arbitrary: w)
  case Nil
  then show ?case by simp
next
  case (Cons t tfs)
  let ?w = "if t \<in> fs w \<and> remove_ok ev t then w\<lparr> fs := fs w - {t} \<rparr> else w"
  show ?case
  proof (cases "p = t")
    case True
    with Cons.prems have "p \<notin> fs ?w" by auto
    with remove_temp_files_subset [of ev tfs ?w] show ?thesis by auto
  next
    case False
    with Cons.prems have "p \<in> set tfs" by simp
    from Cons.IH [OF this Cons.prems(2), of ?w] show ?thesis by simp
  qed
qed

lemma remove_temp_files_stuck:
  "\<forall>p. \<not> remove_ok ev p \<Longrightarrow> remove_temp_files ev tfs w = w"
  by (induction tfs arbitrary: w) auto

text \<open>The call on a non-empty list, in terms of its two stages.\<close>

lemma create_composite_image_stages:
  assumes "results \<noteq> []"
    and "generate_well_images ev cfg out results w [] = (exc, rs1, w1, tfs)"
  shows "create_composite_image ev cfg results out w =
           (case create_composite_figure ev cfg rs1 out (PLATE_ROWS cfg) (PLATE_COLS cfg) w1 of
              Inl e \<Rightarrow> (Inl (VisualizationError e), map clear_temp_reference rs1,
                         remove_temp_files ev tfs w1)
            | Inr w' \<Rightarrow> (Inr out, map clear_temp_reference rs1, remove_temp_files ev tfs w'))"
proof -
  have "exc = None"
    using generate_well_images_no_exception [of ev cfg out results w "[]"] assms(2) by simp
  then show ?thesis
    using assms
    by (simp add: create_composite_image_def cleanup_temp_files_def split: sum.splits)
qed

lemma create_composite_image_results:
  "fst (snd (create_composite_image ev cfg results out w)) = map clear_temp_reference results"
proof (cases "results = []")
  case True
  then show ?thesis by (simp add: create_composite_image_def)
next
  case False
  obtain exc rs1 w1 tfs where g: "generate_well_images ev cfg out results w [] = (exc, rs1, w1, tfs)"
    by (metis prod_cases4)
  have "map clear_temp_reference rs1 = map clear_temp_reference results"
    using generate_well_images_frame [of ev cfg out results w "[]"] g by simp
  then show ?thesis
    using create_composite_image_stages [OF False g] by (simp split: sum.splits)
qed


subsection \<open>Wells without a temporary image\<close>

















text \<open>
  C3, as stated: every temporary file recorded in \<open>temp_files\<close> is deleted before the
  call ends. It fails where \<^verbatim>\<open>os.remove\<close> raises: the exception is caught and logged,
  and the recorded file is still there after the call.
\<close>

theorem temp_files_deleted_counterexample:
  "snd (snd (snd (generate_well_images stuck_env demo_config ''run/plate.png'' [demo_result]
                    demo_world []))) = [''run/Graphs/A01_temp.png''] \<and>
   ''run/Graphs/A01_temp.png'' \<in>
     fs (snd (snd (create_composite_image stuck_env demo_config [demo_result] ''run/plate.png''
                     demo_world)))"
  by code_simp

text \<open>
  C3, amended. Whether the composite was saved or an exception was raised, the cleanup
  has run over every temporary file recorded in \<open>temp_files\<close>: each of them that
  \<^verbatim>\<open>os.remove\<close> can remove is gone when the call ends. (A file whose removal raises is
  left in place; the exception is logged.)
\<close>

theorem temp_files_removed:
  assumes "generate_well_images ev cfg out results w [] = (exc, rs1, w1, tfs)"
    and "p \<in> set tfs" and "remove_ok ev p"
  shows "p \<notin> fs (snd (snd (create_composite_image ev cfg results out w)))"
proof (cases "results = []")
  case True
  with assms show ?thesis by simp
next
  case False
  show ?thesis
    using create_composite_image_stages [OF False assms(1)]
      remove_temp_files_removed [OF assms(2,3)]
    by (simp split: sum.splits)
qed

theorem temp_files_removed_witness:
  "''run/Graphs/A01_temp.png'' \<in> set [''run/Graphs/A01_temp.png''] \<and>
   ''run/Graphs/A01_temp.png'' \<notin>
     fs (snd (snd (create_composite_image demo_env demo_config [demo_result] ''run/plate.png''
                     demo_world)))"
proof -
  have g: "generate_well_images demo_env demo_config ''run/plate.png'' [demo_result] demo_world [] =
      (None, [demo_result(temp_graph_path \<mapsto> PyStr ''run/Graphs/A01_temp.png'')],
       demo_world\<lparr> fs := insert ''run/Graphs/A01_temp.png'' (insert ''run/Graphs'' (fs demo_world)) \<rparr>,
       [''run/Graphs/A01_temp.png''])"
    by (simp add: generate_well_image_def create_temp_well_plot_def extract_clustering_results_def
      validate_clustering_results_def Let_def path_join_def join_step_def is_sep_def dirname_def
      dict_get_def dict_item_def dict_get_default_def get_data_file_path_def data_file_path_try_def
      load_and_clean_data_def is_header_line_def sublist_code
      required_cols_def dropna_def select_columns_def column_indices_def cell_at_def upt_rec
      demo_result_def demo_env_def demo_config_def demo_world_def)
  have r: "remove_ok demo_env ''run/Graphs/A01_temp.png''"
    by (simp add: demo_env_def)
  show ?thesis
    using temp_files_removed [OF g _ r] by simp
qed

text \<open>
  C4, as stated: every record is unchanged by the call. It fails for a record that
  carries the key \<open>temp_graph_path\<close> when the call starts: the cleanup deletes the key
  from every record that has it.
\<close>

theorem record_unchanged_counterexample:
  "fst (snd (create_composite_image demo_env demo_config
               [[temp_graph_path \<mapsto> PyStr ''old_temp.png'']] ''run/plate.png'' demo_world)) \<noteq>
   [[temp_graph_path \<mapsto> PyStr ''old_temp.png'']]"
proof -
  have "clear_temp_reference [temp_graph_path \<mapsto> PyStr ''old_temp.png''] temp_graph_path = None"
    by (simp add: clear_temp_reference_eq)
  then have "clear_temp_reference [temp_graph_path \<mapsto> PyStr ''old_temp.png''] \<noteq>
      [temp_graph_path \<mapsto> PyStr ''old_temp.png'']"
    by (metis fun_upd_same option.distinct(1))
  then show ?thesis
    by (simp add: create_composite_image_results)
qed

text \<open>
  C4, amended. When the call ends, normally or by an exception, every record is its
  input value without the key \<open>temp_graph_path\<close>: no other field has been changed, and
  a record that did not carry that key when the call started is unchanged.
\<close>

theorem records_after_call:
  "fst (snd (create_composite_image ev cfg results out w)) =
     map (\<lambda>r. r(temp_graph_path := None)) results \<and>
   (\<forall>i < length results. temp_graph_path \<notin> dom (results ! i) \<longrightarrow>
      fst (snd (create_composite_image ev cfg results out w)) ! i = results ! i)"
proof -
  have eq: "clear_temp_reference = (\<lambda>r. r(temp_graph_path := None))"
    by (rule ext) (rule clear_temp_reference_eq)
  have a: "fst (snd (create_composite_image ev cfg results out w)) =
     map (\<lambda>r. r(temp_graph_path := None)) results"
    using create_composite_image_results [of ev cfg results out w] by (simp only: eq)
  have "(results ! i)(temp_graph_path := None) = results ! i"
    if "temp_graph_path \<notin> dom (results ! i)" for i
    using that by (auto simp: fun_eq_iff)
  with a show ?thesis by simp
qed

theorem records_after_call_witness:
  "fst (snd (create_composite_image demo_env demo_config [demo_result] ''run/plate.png''
               demo_world)) ! 0 = demo_result"
proof -
  have "temp_graph_path \<notin> dom demo_result"
    by (simp add: demo_result_def temp_graph_path_def)
  then show ?thesis
    using records_after_call [of demo_env demo_config "[demo_result]" "''run/plate.png''" demo_world]
    by simp
qed

text \<open>
  C8. When the call returns, the value returned is the output path it was given, and
  exactly one figure has been saved during the call, at that path.
\<close>

theorem composite_saved_at_output_path:
  assumes "create_composite_image ev cfg results out w = (Inr p, results', w')"
  shows "p = out \<and> (\<exists>fig. saved w' = saved w @ [(out, fig)])"
proof -
  have ne: "results \<noteq> []"
    using assms by (auto simp: create_composite_image_def)
  obtain exc rs1 w1 tfs where g: "generate_well_images ev cfg out results w [] = (exc, rs1, w1, tfs)"
    by (metis prod_cases4)
  have s1: "saved w1 = saved w"
    using generate_well_images_saved [of ev cfg out results w "[]"] g by simp
  from create_composite_image_stages [OF ne g] assms
  obtain w2 where f: "create_composite_figure ev cfg rs1 out (PLATE_ROWS cfg) (PLATE_COLS cfg) w1 = Inr w2"
    and p: "p = out" and w': "w' = remove_temp_files ev tfs w2"
    by (auto split: sum.splits)
  from create_composite_figure_world [OF f] obtain fig where "saved w2 = saved w1 @ [(out, fig)]"
    by blast
  with s1 p w' show ?thesis
    by (simp add: remove_temp_files_saved)
qed

theorem composite_saved_at_output_path_witness:
  "\<exists>rs' w'. create_composite_image demo_env demo_config [demo_result] ''run/plate.png'' demo_world =
       (Inr ''run/plate.png'', rs', w') \<and>
     (\<exists>fig. saved w' = saved demo_world @ [(''run/plate.png'', fig)])"
proof -
  have "fst (create_composite_image demo_env demo_config [demo_result] ''run/plate.png'' demo_world) =
      Inr ''run/plate.png''"
    by code_simp
  then obtain rs' w' where
    c: "create_composite_image demo_env demo_config [demo_result] ''run/plate.png'' demo_world =
          (Inr ''run/plate.png'', rs', w')"
    by (metis fst_conv surj_pair)
  from composite_saved_at_output_path [OF c] c show ?thesis by blast
qed

section \<open>The well-results dictionary\<close>

lemma dict_item_get: "dict_item r k = Inr v \<Longrightarrow> dict_get r k = v"
  by (auto simp: dict_item_def dict_get_def split: option.splits)

lemma store_well_other: "k \<noteq> PyStr well \<Longrightarrow> store_well m k r well = m well"
  by (cases k) auto

lemma build_well_results_lookup:
  "build_well_results rs m = Inr m' \<Longrightarrow>
     m' well = (case filter (\<lambda>r. dict_get r ''well'' = PyStr well) rs of
                  [] \<Rightarrow> m well
                | x # xs \<Rightarrow> Some (last (x # xs)))"
proof (induction rs arbitrary: m)
  case Nil
  then show ?case by simp
next
  case (Cons r rs)
  show ?case
  proof (cases "dict_get r ''well'' = PyNone")
    case True
    with Cons.prems have "build_well_results rs m = Inr m'" by simp
    from Cons.IH [OF this] True show ?thesis by simp
  next
    case False
    with Cons.prems obtain k where k: "dict_item r ''well'' = Inr k"
      and b: "build_well_results rs (store_well m k r) = Inr m'"
      by (auto split: sum.splits if_splits)
    have g: "dict_get r ''well'' = k" using k by (rule dict_item_get)
    show ?thesis
    proof (cases "k = PyStr well")
      case True
      with Cons.IH [OF b] g show ?thesis
        by (auto split: list.splits)
    next
      case False
      with Cons.IH [OF b] g store_well_other [OF False] show ?thesis
        by (auto split: list.splits)
    qed
  qed
qed

section \<open>The grid of subplots\<close>

lemma row_subplots_nth:
  "row_subplots ev cfg w wr i row js = Inr axs \<Longrightarrow>
     length axs = length js \<and>
     (\<forall>k < length js. well_subplot ev cfg w wr i row (js ! k) = Inr (axs ! k))"
proof (induction js arbitrary: axs)
  case Nil
  then show ?case by simp
next
  case (Cons j js)
  from Cons.prems obtain ax rest where ax: "well_subplot ev cfg w wr i row j = Inr ax"
    and rest: "row_subplots ev cfg w wr i row js = Inr rest" and axs: "axs = ax # rest"
    by (auto split: sum.splits)
  from Cons.IH [OF rest] ax axs show ?case
    by (auto simp: nth_Cons split: nat.splits)
qed

lemma all_subplots_nth:
  "all_subplots ev cfg w wr i rows n = Inr axs \<Longrightarrow>
     length axs = length rows * n \<and>
     (\<forall>a < length rows. \<forall>j < n.
        well_subplot ev cfg w wr (i + a) (rows ! a) j = Inr (axs ! (a * n + j)))"
proof (induction rows arbitrary: i axs)
  case Nil
  then show ?case by simp
next
  case (Cons row rows)
  from Cons.prems obtain axs1 rest where
    r1: "row_subplots ev cfg w wr i row [0..<n] = Inr axs1"
    and r2: "all_subplots ev cfg w wr (Suc i) rows n = Inr rest"
    and axs: "axs = axs1 @ rest"
    by (auto split: sum.splits)
  from row_subplots_nth [OF r1] have l1: "length axs1 = n"
    and n1: "\<And>j. j < n \<Longrightarrow> well_subplot ev cfg w wr i row j = Inr (axs1 ! j)"
    by auto
  from Cons.IH [OF r2] have l2: "length rest = length rows * n"
    and n2: "\<And>a j. a < length rows \<Longrightarrow> j < n \<Longrightarrow>
               well_subplot ev cfg w wr (Suc i + a) (rows ! a) j = Inr (rest ! (a * n + j))"
    by auto
  have "well_subplot ev cfg w wr (i + a) ((row # rows) ! a) j = Inr (axs ! (a * n + j))"
    if a: "a < length (row # rows)" and j: "j < n" for a j
  proof (cases a)
    case 0
    with n1 [OF j] j l1 axs show ?thesis by (simp add: nth_append)
  next
    case (Suc b)
    with a have b: "b < length rows" by simp
    have "axs ! (a * n + j) = rest ! (b * n + j)"
      using Suc l1 axs by (simp add: nth_append)
    with n2 [OF b j] Suc show ?thesis by simp
  qed
  with l1 l2 axs show ?case by simp
qed

lemma py_int_last_plate_cols: "py_int (last plate_cols) = Inr 12"
  by code_simp

lemma length_plate_rows: "length plate_rows = 8"
  by (simp add: plate_rows_def)

lemma create_well_subplots_plate:
  assumes "create_well_subplots ev cfg w plate_rows plate_cols wr = Inr axs"
  shows "length axs = 96 \<and>
         (\<forall>i < 8. \<forall>j < 12.
            well_subplot ev cfg w wr i (plate_rows ! i) j = Inr (axs ! (i * 12 + j)))"
proof -
  have "plate_rows \<noteq> []" "plate_cols \<noteq> []"
    by (simp_all add: plate_rows_def plate_cols_def)
  with assms have "all_subplots ev cfg w wr 0 plate_rows 12 = Inr axs"
    by (simp add: create_well_subplots_def py_int_last_plate_cols)
  from all_subplots_nth [OF this] show ?thesis
    by (simp add: length_plate_rows)
qed


lemma well_subplot_frame:
  assumes "well_subplot ev cfg w wr i row j = Inr ax"
  shows "ax_position ax = (i, j) \<and> ax_facecolor ax = Some ''#f5f5f5''"
  using assms
  by (auto simp: well_subplot_def populate_data_well_def populate_empty_well_def add_text_def
      apply_well_border_def new_axes_def Let_def
      split: if_splits option.splits sum.splits bool.splits)

lemma well_subplot_placeholder:
  assumes "well_subplot ev cfg w wr i row j = Inr ax"
    and "wr (WELL_FORMAT cfg row (int j + 1)) = None"
  shows "ax_image ax = None \<and> ax_title ax = None \<and>
         ax_texts ax = [(WELL_FORMAT cfg row (int j + 1), Some ''gray'')] \<and>
         ax_spines ax = Some (''#cccccc'', 1) \<and> ax_limits ax = Some (axis_limits cfg)"
  using assms
  by (auto simp: well_subplot_def populate_empty_well_def add_text_def new_axes_def Let_def
      split: if_splits)

lemma well_subplot_record:
  assumes "well_subplot ev cfg w wr i row j = Inr ax"
    and "wr (WELL_FORMAT cfg row (int j + 1)) = Some result"
    and "graph_path = dict_get_default result temp_graph_path (dict_get result ''graph_path'')"
  shows "if \<not> truthy graph_path \<or> os_path_exists ev w graph_path = Inr False
         then ax_image ax = None \<and> ax_texts ax = [(''No Image'', None)] \<and> ax_spines ax = None
         else if \<not> imread_ok ev graph_path
         then ax_image ax = None \<and> ax_texts ax = [(''Image Error'', Some ''red'')] \<and>
              ax_spines ax = None
         else ax_image ax = Some graph_path \<and> ax_texts ax = [] \<and>
              ax_title ax = Some (if truthy (dict_get result ''sample_name'')
                                  then dict_get result ''sample_name''
                                  else PyStr (WELL_FORMAT cfg row (int j + 1))) \<and>
              ax_spines ax = ax_spines (apply_well_border ax result)"
  using assms
  by (auto simp: well_subplot_def populate_data_well_def add_text_def apply_well_border_def
      new_axes_def Let_def
      split: if_splits sum.splits bool.splits prod.splits)

lemma populate_data_well_total:
  assumes "\<not> truthy (dict_get_default r temp_graph_path (dict_get r ''graph_path'')) \<or>
           (\<exists>s. dict_get_default r temp_graph_path (dict_get r ''graph_path'') = PyStr s)"
  shows "\<exists>ax'. populate_data_well ev w ax well r = Inr ax'"
  using assms
  by (auto simp: populate_data_well_def Let_def split: sum.splits bool.splits)

lemma well_subplot_total:
  assumes "i < 8" and "j < 12"
    and "\<forall>r. wr (WELL_FORMAT cfg row (int j + 1)) = Some r \<longrightarrow>
           \<not> truthy (dict_get_default r temp_graph_path (dict_get r ''graph_path'')) \<or>
           (\<exists>s. dict_get_default r temp_graph_path (dict_get r ''graph_path'') = PyStr s)"
  shows "\<exists>ax. well_subplot ev cfg w wr i row j = Inr ax"
proof (cases "wr (WELL_FORMAT cfg row (int j + 1))")
  case None
  with assms(1,2) show ?thesis by (simp add: well_subplot_def Let_def)
next
  case (Some r)
  with assms(3) populate_data_well_total [of r ev w _ "WELL_FORMAT cfg row (int j + 1)"]
  obtain ax' where "populate_data_well ev w ((new_axes (i, j))\<lparr> ax_facecolor := Some ''#f5f5f5'' \<rparr>)
      (WELL_FORMAT cfg row (int j + 1)) r = Inr ax'"
    by blast
  with Some assms(1,2) show ?thesis by (simp add: well_subplot_def Let_def)
qed

lemma row_subplots_total:
  assumes "i < 8" and "\<forall>j \<in> set js. j < 12"
    and "\<forall>well r. wr well = Some r \<longrightarrow>
           \<not> truthy (dict_get_default r temp_graph_path (dict_get r ''graph_path'')) \<or>
           (\<exists>s. dict_get_default r temp_graph_path (dict_get r ''graph_path'') = PyStr s)"
  shows "\<exists>axs. row_subplots ev cfg w wr i row js = Inr axs"
  using assms(2)
proof (induction js)
  case Nil
  then show ?case by simp
next
  case (Cons j js)
  then have "j < 12" by simp
  from well_subplot_total [OF assms(1) this, of wr cfg row ev w] assms(3)
  obtain ax where "well_subplot ev cfg w wr i row j = Inr ax" by blast
  moreover from Cons obtain axs where "row_subplots ev cfg w wr i row js = Inr axs" by auto
  ultimately show ?case by simp
qed

lemma all_subplots_total:
  assumes "i + length rows \<le> 8" and "n \<le> 12"
    and "\<forall>well r. wr well = Some r \<longrightarrow>
           \<not> truthy (dict_get_default r temp_graph_path (dict_get r ''graph_path'')) \<or>
           (\<exists>s. dict_get_default r temp_graph_path (dict_get r ''graph_path'') = PyStr s)"
  shows "\<exists>axs. all_subplots ev cfg w wr i rows n = Inr axs"
  using assms(1)
proof (induction rows arbitrary: i)
  case Nil
  then show ?case by simp
next
  case (Cons row rows)
  then have i: "i < 8" and rest: "Suc i + length rows \<le> 8" by simp_all
  have "\<forall>j \<in> set [0..<n]. j < 12" using assms(2) by auto
  from row_subplots_total [OF i this assms(3), of ev cfg w row]
  obtain axs1 where "row_subplots ev cfg w wr i row [0..<n] = Inr axs1" by blast
  moreover from Cons.IH [OF rest] obtain axs2 where
    "all_subplots ev cfg w wr (Suc i) rows n = Inr axs2" by blast
  ultimately show ?case by simp
qed

lemma build_well_results_total:
  "\<forall>r \<in> set rs. hashable (dict_get r ''well'') \<Longrightarrow> \<exists>m'. build_well_results rs m = Inr m'"
proof (induction rs arbitrary: m)
  case Nil
  then show ?case by simp
next
  case (Cons r rs)
  show ?case
  proof (cases "dict_get r ''well'' = PyNone")
    case True
    with Cons show ?thesis by simp
  next
    case False
    then obtain k where k: "dict_item r ''well'' = Inr k"
      by (auto simp: dict_get_def dict_item_def split: option.splits)
    with Cons.prems have "hashable k" by (simp add: dict_item_get [OF k])
    with Cons False k show ?thesis by simp
  qed
qed

lemma build_well_results_range:
  assumes "build_well_results rs Map.empty = Inr wr" and "wr well = Some r"
  shows "r \<in> set rs"
proof -
  from build_well_results_lookup [OF assms(1), of well] assms(2)
  obtain x xs where f: "filter (\<lambda>r. dict_get r ''well'' = PyStr well) rs = x # xs"
    and r: "r = last (x # xs)"
    by (auto split: list.splits)
  have "last (x # xs) \<in> set (x # xs)" by (rule last_in_set) simp
  with f r have "r \<in> set (filter (\<lambda>r. dict_get r ''well'' = PyStr well) rs)" by simp
  then show ?thesis by simp
qed

lemma add_plate_labels_plate:
  "length axs = 96 \<Longrightarrow> \<exists>labels. add_plate_labels axs plate_rows plate_cols = Inr labels"
  by (auto simp: add_plate_labels_def list_ex_iff plate_rows_def plate_cols_def)

text \<open>
  C9. When several records carry the same well id, the dictionary holds the one that
  occurs last in the list, and the subplot of that well is populated from it.
\<close>

theorem last_record_wins:
  assumes "build_well_results results Map.empty = Inr well_results"
  shows "well_results well =
           (case filter (\<lambda>r. dict_get r ''well'' = PyStr well) results of
              [] \<Rightarrow> None
            | x # xs \<Rightarrow> Some (last (x # xs))) \<and>
         (\<forall>i j row x xs.
            i < 8 \<and> j < 12 \<and> WELL_FORMAT cfg row (int j + 1) = well \<and>
            filter (\<lambda>r. dict_get r ''well'' = PyStr well) results = x # xs \<longrightarrow>
            well_subplot ev cfg w well_results i row j =
              (case populate_data_well ev w ((new_axes (i, j))\<lparr> ax_facecolor := Some ''#f5f5f5'' \<rparr>)
                      well (last (x # xs)) of
                 Inl e \<Rightarrow> Inl e
               | Inr ax' \<Rightarrow>
                   Inr (ax'\<lparr> ax_xlocator := FixedLocator [], ax_ylocator := FixedLocator [] \<rparr>)))"
proof -
  have a: "well_results well =
           (case filter (\<lambda>r. dict_get r ''well'' = PyStr well) results of
              [] \<Rightarrow> None
            | x # xs \<Rightarrow> Some (last (x # xs)))"
    using build_well_results_lookup [OF assms, of well] by simp
  then show ?thesis
    by (auto simp: well_subplot_def Let_def)
qed

theorem last_record_wins_witness:
  "\<exists>wr. build_well_results
          [[''well'' \<mapsto> PyStr ''A01'', ''sample_name'' \<mapsto> PyStr ''first''],
           [''well'' \<mapsto> PyStr ''A01'', ''sample_name'' \<mapsto> PyStr ''second'']] Map.empty = Inr wr \<and>
        wr ''A01'' = Some [''well'' \<mapsto> PyStr ''A01'', ''sample_name'' \<mapsto> PyStr ''second'']"
proof -
  obtain wr where b: "build_well_results
          [[''well'' \<mapsto> PyStr ''A01'', ''sample_name'' \<mapsto> PyStr ''first''],
           [''well'' \<mapsto> PyStr ''A01'', ''sample_name'' \<mapsto> PyStr ''second'']] Map.empty = Inr wr"
    by (simp add: dict_get_def dict_item_def)
  from last_record_wins [OF b, of "''A01''"] b show ?thesis
    by (simp add: dict_get_def)
qed


section \<open>The assembled figure\<close>

lemma composite_figure_grid:
  assumes "create_composite_figure ev cfg results out plate_rows plate_cols w = Inr w'"
  shows "\<exists>wr fig.
           build_well_results results Map.empty = Inr wr \<and>
           saved w' = saved w @ [(out, fig)] \<and>
           length (fig_axes fig) = 96 \<and>
           (\<forall>i < 8. \<forall>j < 12.
              well_subplot ev cfg w wr i (plate_rows ! i) j = Inr (fig_axes fig ! (i * 12 + j)))"
proof -
  from assms obtain wr axs labels where
    wr: "build_well_results results Map.empty = Inr wr"
    and axs: "create_well_subplots ev cfg w plate_rows plate_cols wr = Inr axs"
    and sv: "saved w' = saved w @ [(out, \<lparr> fig_size = COMPOSITE_FIGURE_SIZE cfg, fig_axes = axs,
                                            fig_labels = labels \<rparr>)]"
    by (auto simp: create_composite_figure_def split: sum.splits option.splits)
  define fig where "fig = \<lparr> fig_size = COMPOSITE_FIGURE_SIZE cfg, fig_axes = axs,
                            fig_labels = labels \<rparr>"
  have fa: "fig_axes fig = axs" by (simp add: fig_def)
  from create_well_subplots_plate [OF axs] have len: "length axs = 96"
    and sub: "\<forall>i < 8. \<forall>j < 12.
                well_subplot ev cfg w wr i (plate_rows ! i) j = Inr (axs ! (i * 12 + j))"
    by auto
  show ?thesis
  proof (intro exI conjI)
    show "build_well_results results Map.empty = Inr wr" by (rule wr)
    show "saved w' = saved w @ [(out, fig)]" using sv by (simp add: fig_def)
    show "length (fig_axes fig) = 96" using len fa by simp
    show "\<forall>i < 8. \<forall>j < 12.
            well_subplot ev cfg w wr i (plate_rows ! i) j = Inr (fig_axes fig ! (i * 12 + j))"
      using sub unfolding fa .
  qed
qed

text \<open>
  What the subplot of a position shows, from the records: the placeholder when no record
  carries the well id of the position, and else what \<^verbatim>\<open>_populate_data_well\<close> draws for
  the last record that carries it.
\<close>

lemma well_position_rendering:
  assumes "build_well_results results Map.empty = Inr wr"
    and "well_subplot ev cfg w wr i row j = Inr ax"
  shows "ax_position ax = (i, j) \<and> ax_facecolor ax = Some ''#f5f5f5'' \<and>
     (filter (\<lambda>r. dict_get r ''well'' = PyStr (WELL_FORMAT cfg row (int j + 1))) results = [] \<longrightarrow>
        ax_image ax = None \<and> ax_title ax = None \<and>
        ax_texts ax = [(WELL_FORMAT cfg row (int j + 1), Some ''gray'')] \<and>
        ax_spines ax = Some (''#cccccc'', 1) \<and> ax_limits ax = Some (axis_limits cfg)) \<and>
     (\<forall>result graph_path.
        filter (\<lambda>r. dict_get r ''well'' = PyStr (WELL_FORMAT cfg row (int j + 1))) results \<noteq> [] \<and>
        result = last (filter (\<lambda>r. dict_get r ''well'' = PyStr (WELL_FORMAT cfg row (int j + 1)))
                         results) \<and>
        graph_path = dict_get_default result temp_graph_path (dict_get result ''graph_path'') \<longrightarrow>
        (if \<not> truthy graph_path \<or> os_path_exists ev w graph_path = Inr False
         then ax_image ax = None \<and> ax_texts ax = [(''No Image'', None)] \<and> ax_spines ax = None
         else if \<not> imread_ok ev graph_path
         then ax_image ax = None \<and> ax_texts ax = [(''Image Error'', Some ''red'')] \<and>
              ax_spines ax = None
         else ax_image ax = Some graph_path \<and> ax_texts ax = [] \<and>
              ax_title ax = Some (if truthy (dict_get result ''sample_name'')
                                  then dict_get result ''sample_name''
                                  else PyStr (WELL_FORMAT cfg row (int j + 1))) \<and>
              ax_spines ax = ax_spines (apply_well_border ax result)))"
proof -
  let ?well = "WELL_FORMAT cfg row (int j + 1)"
  let ?rs = "filter (\<lambda>r. dict_get r ''well'' = PyStr ?well) results"
  have look: "wr ?well = (case ?rs of [] \<Rightarrow> None | x # xs \<Rightarrow> Some (last (x # xs)))"
    using build_well_results_lookup [OF assms(1), of ?well] by simp
  from well_subplot_frame [OF assms(2)]
  have pos: "ax_position ax = (i, j)" and face: "ax_facecolor ax = Some ''#f5f5f5''"
    by simp_all
  have empty: "?rs = [] \<longrightarrow>
        ax_image ax = None \<and> ax_title ax = None \<and> ax_texts ax = [(?well, Some ''gray'')] \<and>
        ax_spines ax = Some (''#cccccc'', 1) \<and> ax_limits ax = Some (axis_limits cfg)"
  proof
    assume "?rs = []"
    with look have "wr ?well = None" by simp
    with assms(2) show "ax_image ax = None \<and> ax_title ax = None \<and>
        ax_texts ax = [(?well, Some ''gray'')] \<and>
        ax_spines ax = Some (''#cccccc'', 1) \<and> ax_limits ax = Some (axis_limits cfg)"
      by (rule well_subplot_placeholder)
  qed
  have data: "\<forall>result graph_path.
        ?rs \<noteq> [] \<and> result = last ?rs \<and>
        graph_path = dict_get_default result temp_graph_path (dict_get result ''graph_path'') \<longrightarrow>
        (if \<not> truthy graph_path \<or> os_path_exists ev w graph_path = Inr False
         then ax_image ax = None \<and> ax_texts ax = [(''No Image'', None)] \<and> ax_spines ax = None
         else if \<not> imread_ok ev graph_path
         then ax_image ax = None \<and> ax_texts ax = [(''Image Error'', Some ''red'')] \<and>
              ax_spines ax = None
         else ax_image ax = Some graph_path \<and> ax_texts ax = [] \<and>
              ax_title ax = Some (if truthy (dict_get result ''sample_name'')
                                  then dict_get result ''sample_name''
                                  else PyStr ?well) \<and>
              ax_spines ax = ax_spines (apply_well_border ax result))"
  proof (intro allI impI, elim conjE)
    fix result graph_path
    assume ne: "?rs \<noteq> []" and r: "result = last ?rs"
      and gp: "graph_path = dict_get_default result temp_graph_path (dict_get result ''graph_path'')"
    from ne r look have "wr ?well = Some result"
      by (cases ?rs) simp_all
    with assms(2) show
      "if \<not> truthy graph_path \<or> os_path_exists ev w graph_path = Inr False
       then ax_image ax = None \<and> ax_texts ax = [(''No Image'', None)] \<and> ax_spines ax = None
       else if \<not> imread_ok ev graph_path
       then ax_image ax = None \<and> ax_texts ax = [(''Image Error'', Some ''red'')] \<and>
            ax_spines ax = None
       else ax_image ax = Some graph_path \<and> ax_texts ax = [] \<and>
            ax_title ax = Some (if truthy (dict_get result ''sample_name'')
                                then dict_get result ''sample_name''
                                else PyStr ?well) \<and>
            ax_spines ax = ax_spines (apply_well_border ax result)"
      using gp by (rule well_subplot_record)
  qed
  from pos face empty data show ?thesis by (intro conjI)
qed

lemma composite_figure_total:
  assumes "(\<forall>r \<in> set results.
        hashable (dict_get r ''well'') \<and>
        (\<not> truthy (dict_get_default r temp_graph_path (dict_get r ''graph_path'')) \<or>
         (\<exists>s. dict_get_default r temp_graph_path (dict_get r ''graph_path'') = PyStr s)))"
    and "savefig ev out = None"
  shows "\<exists>w'. create_composite_figure ev cfg results out plate_rows plate_cols w = Inr w'"
proof -
  from assms(1) have "\<forall>r \<in> set results. hashable (dict_get r ''well'')" by blast
  from build_well_results_total [OF this] obtain wr where
    wr: "build_well_results results Map.empty = Inr wr" by blast
  have ok: "\<forall>well r. wr well = Some r \<longrightarrow>
           \<not> truthy (dict_get_default r temp_graph_path (dict_get r ''graph_path'')) \<or>
           (\<exists>s. dict_get_default r temp_graph_path (dict_get r ''graph_path'') = PyStr s)"
    using build_well_results_range [OF wr] assms(1) by blast
  have "0 + length plate_rows \<le> 8" by (simp add: length_plate_rows)
  from all_subplots_total [OF this _ ok, of 12 ev cfg w] obtain axs where
    "all_subplots ev cfg w wr 0 plate_rows 12 = Inr axs" by auto
  moreover have "plate_rows \<noteq> []" "plate_cols \<noteq> []"
    by (simp_all add: plate_rows_def plate_cols_def)
  ultimately have axs: "create_well_subplots ev cfg w plate_rows plate_cols wr = Inr axs"
    by (simp add: create_well_subplots_def py_int_last_plate_cols)
  from create_well_subplots_plate [OF axs] have "length axs = 96" by simp
  from add_plate_labels_plate [OF this] obtain labels where
    "add_plate_labels axs plate_rows plate_cols = Inr labels" by blast
  with wr axs assms(2) show ?thesis
    by (simp add: create_composite_figure_def)
qed

text \<open>
  C5. With the plate layout of 8 rows (A to H) and 12 columns, a composite figure that
  is assembled has exactly 96 subplots, one at each position of the grid, row by row.
  The subplot of a position whose well id no record carries is the placeholder: no image,
  the well id in gray, the default grey border, the configured limits. The subplot of a
  position whose well id a record carries is populated from the last such record: its
  graph with title and border where the graph exists and can be read, the text "No
  Image" or "Image Error" where not. The assembly succeeds whenever the well ids are
  hashable, the graph paths of the records are strings (or false) and the figure can be
  saved.
\<close>

theorem one_subplot_per_well_position:
  "(create_composite_figure ev cfg results out plate_rows plate_cols w = Inr w' \<longrightarrow>
      (\<exists>fig.
         saved w' = saved w @ [(out, fig)] \<and>
         length (fig_axes fig) = 96 \<and>
         (\<forall>i < 8. \<forall>j < 12. \<forall>well ax.
            well = WELL_FORMAT cfg (plate_rows ! i) (int j + 1) \<and>
            ax = fig_axes fig ! (i * 12 + j) \<longrightarrow>
            ax_position ax = (i, j) \<and> ax_facecolor ax = Some ''#f5f5f5'' \<and>
            (filter (\<lambda>r. dict_get r ''well'' = PyStr well) results = [] \<longrightarrow>
               ax_image ax = None \<and> ax_title ax = None \<and>
               ax_texts ax = [(well, Some ''gray'')] \<and>
               ax_spines ax = Some (''#cccccc'', 1) \<and> ax_limits ax = Some (axis_limits cfg)) \<and>
            (\<forall>result graph_path.
               filter (\<lambda>r. dict_get r ''well'' = PyStr well) results \<noteq> [] \<and>
               result = last (filter (\<lambda>r. dict_get r ''well'' = PyStr well) results) \<and>
               graph_path = dict_get_default result temp_graph_path (dict_get result ''graph_path'') \<longrightarrow>
               (if \<not> truthy graph_path \<or> os_path_exists ev w graph_path = Inr False
                then ax_image ax = None \<and> ax_texts ax = [(''No Image'', None)] \<and>
                     ax_spines ax = None
                else if \<not> imread_ok ev graph_path
                then ax_image ax = None \<and> ax_texts ax = [(''Image Error'', Some ''red'')] \<and>
                     ax_spines ax = None
                else ax_image ax = Some graph_path \<and> ax_texts ax = [] \<and>
                     ax_title ax = Some (if truthy (dict_get result ''sample_name'')
                                         then dict_get result ''sample_name''
                                         else PyStr well) \<and>
                     ax_spines ax = ax_spines (apply_well_border ax result)))))) \<and>
   ((\<forall>r \<in> set results.
        hashable (dict_get r ''well'') \<and>
        (\<not> truthy (dict_get_default r temp_graph_path (dict_get r ''graph_path'')) \<or>
         (\<exists>s. dict_get_default r temp_graph_path (dict_get r ''graph_path'') = PyStr s))) \<and>
     savefig ev out = None \<longrightarrow>
      (\<exists>w'. create_composite_figure ev cfg results out plate_rows plate_cols w = Inr w'))"
proof (intro conjI impI, goal_cases)
  case 1
  from composite_figure_grid [OF 1] obtain wr fig where
    wr: "build_well_results results Map.empty = Inr wr"
    and sv: "saved w' = saved w @ [(out, fig)]"
    and len: "length (fig_axes fig) = 96"
    and sub: "\<forall>i < 8. \<forall>j < 12.
                well_subplot ev cfg w wr i (plate_rows ! i) j = Inr (fig_axes fig ! (i * 12 + j))"
    by blast
  show ?case
  proof (rule exI [of _ fig], intro conjI, goal_cases)
    case 1
    show ?case by (rule sv)
  next
    case 2
    show ?case by (rule len)
  next
    case 3
    show ?case
    proof (intro allI impI, elim conjE, goal_cases)
      case (1 i j well ax)
      then have s: "well_subplot ev cfg w wr i (plate_rows ! i) j = Inr ax"
        and wl: "well = WELL_FORMAT cfg (plate_rows ! i) (int j + 1)"
        using sub by simp_all
      from well_position_rendering [OF wr s] show ?case unfolding wl .
    qed
  qed
next
  case 2
  then show ?case
    using composite_figure_total [of results ev out cfg w] by (elim conjE)
qed

theorem one_subplot_per_well_position_witness:
  "\<exists>w' fig. create_composite_figure demo_env demo_config [demo_result] ''run/plate.png''
               plate_rows plate_cols demo_world = Inr w' \<and>
     saved w' = saved demo_world @ [(''run/plate.png'', fig)] \<and>
     length (fig_axes fig) = 96 \<and>
     ax_position (fig_axes fig ! 0) = (0, 0) \<and>
     ax_image (fig_axes fig ! 0) = Some (PyStr ''run/Graphs/A01.png'') \<and>
     ax_title (fig_axes fig ! 0) = Some (PyStr ''A01'') \<and>
     ax_spines (fig_axes fig ! 0) = Some (''#E6B8E6'', 3) \<and>
     ax_position (fig_axes fig ! 14) = (1, 2) \<and>
     ax_texts (fig_axes fig ! 14) = [(''B03'', Some ''gray'')] \<and>
     ax_spines (fig_axes fig ! 14) = Some (''#cccccc'', 1)"
proof -
  let ?g = "PyStr ''run/Graphs/A01.png''"
  note plate = one_subplot_per_well_position [of demo_env demo_config "[demo_result]"
      "''run/plate.png''" demo_world]
  have "(\<forall>r \<in> set [demo_result].
        hashable (dict_get r ''well'') \<and>
        (\<not> truthy (dict_get_default r temp_graph_path (dict_get r ''graph_path'')) \<or>
         (\<exists>s. dict_get_default r temp_graph_path (dict_get r ''graph_path'') = PyStr s))) \<and>
      savefig demo_env ''run/plate.png'' = None"
    by (simp add: demo_result_def dict_get_def dict_get_default_def temp_graph_path_def
        demo_env_def)
  from plate [THEN conjunct2, THEN mp, OF this] obtain w' where
    c: "create_composite_figure demo_env demo_config [demo_result] ''run/plate.png''
          plate_rows plate_cols demo_world = Inr w'"
    by blast
  from plate [of w', THEN conjunct1, THEN mp, OF c] obtain fig where
    fig: "saved w' = saved demo_world @ [(''run/plate.png'', fig)] \<and>
      length (fig_axes fig) = 96 \<and>
      (\<forall>i < 8. \<forall>j < 12. \<forall>well ax.
        well = WELL_FORMAT demo_config (plate_rows ! i) (int j + 1) \<and>
        ax = fig_axes fig ! (i * 12 + j) \<longrightarrow>
        ax_position ax = (i, j) \<and> ax_facecolor ax = Some ''#f5f5f5'' \<and>
        (filter (\<lambda>r. dict_get r ''well'' = PyStr well) [demo_result] = [] \<longrightarrow>
           ax_image ax = None \<and> ax_title ax = None \<and>
           ax_texts ax = [(well, Some ''gray'')] \<and>
           ax_spines ax = Some (''#cccccc'', 1) \<and> ax_limits ax = Some (axis_limits demo_config)) \<and>
        (\<forall>result graph_path.
           filter (\<lambda>r. dict_get r ''well'' = PyStr well) [demo_result] \<noteq> [] \<and>
           result = last (filter (\<lambda>r. dict_get r ''well'' = PyStr well) [demo_result]) \<and>
           graph_path = dict_get_default result temp_graph_path (dict_get result ''graph_path'') \<longrightarrow>
           (if \<not> truthy graph_path \<or> os_path_exists demo_env demo_world graph_path = Inr False
            then ax_image ax = None \<and> ax_texts ax = [(''No Image'', None)] \<and>
                 ax_spines ax = None
            else if \<not> imread_ok demo_env graph_path
            then ax_image ax = None \<and> ax_texts ax = [(''Image Error'', Some ''red'')] \<and>
                 ax_spines ax = None
            else ax_image ax = Some graph_path \<and> ax_texts ax = [] \<and>
                 ax_title ax = Some (if truthy (dict_get result ''sample_name'')
                                     then dict_get result ''sample_name''
                                     else PyStr well) \<and>
                 ax_spines ax = ax_spines (apply_well_border ax result))))"
    ..
  note sv = fig [THEN conjunct1]
  note len = fig [THEN conjunct2, THEN conjunct1]
  note cells = fig [THEN conjunct2, THEN conjunct2, rule_format]
  have a01: "WELL_FORMAT demo_config (plate_rows ! 0) (int 0 + 1) = ''A01''"
    by code_simp
  have b03: "WELL_FORMAT demo_config (plate_rows ! 1) (int 2 + 1) = ''B03''"
    by code_simp
  have well: "dict_get demo_result ''well'' = PyStr ''A01''"
    and gp: "dict_get_default demo_result temp_graph_path (dict_get demo_result ''graph_path'') = ?g"
    and name: "dict_get demo_result ''sample_name'' = PyNone"
    by (simp_all add: demo_result_def dict_get_def dict_get_default_def temp_graph_path_def)
  have border: "ax_spines (apply_well_border ax demo_result) = Some (''#E6B8E6'', 3)" for ax
    by (simp add: apply_well_border_def demo_result_def dict_get_default_def)
  have "''A01'' = WELL_FORMAT demo_config (plate_rows ! 0) (int 0 + 1) \<and>
      fig_axes fig ! 0 = fig_axes fig ! (0 * 12 + 0)"
    by (simp only: a01) simp
  from cells [where i = 0 and j = 0 and well = "''A01''" and ax = "fig_axes fig ! 0", OF _ _ this]
  have first: "ax_position (fig_axes fig ! 0) = (0, 0) \<and>
     ax_image (fig_axes fig ! 0) = Some ?g \<and>
     ax_title (fig_axes fig ! 0) = Some (PyStr ''A01'') \<and>
     ax_spines (fig_axes fig ! 0) = Some (''#E6B8E6'', 3)"
    by (simp add: well gp name border demo_world_def demo_env_def)
  have "''B03'' = WELL_FORMAT demo_config (plate_rows ! 1) (int 2 + 1) \<and>
      fig_axes fig ! 14 = fig_axes fig ! (1 * 12 + 2)"
    by (simp only: b03) simp
  from cells [where i = 1 and j = 2 and well = "''B03''" and ax = "fig_axes fig ! 14", OF _ _ this]
  have other: "ax_position (fig_axes fig ! 14) = (1, 2) \<and>
     ax_texts (fig_axes fig ! 14) = [(''B03'', Some ''gray'')] \<and>
     ax_spines (fig_axes fig ! 14) = Some (''#cccccc'', 1)"
    by (simp add: well)
  from first other have rest: "ax_position (fig_axes fig ! 0) = (0, 0) \<and>
     ax_image (fig_axes fig ! 0) = Some (PyStr ''run/Graphs/A01.png'') \<and>
     ax_title (fig_axes fig ! 0) = Some (PyStr ''A01'') \<and>
     ax_spines (fig_axes fig ! 0) = Some (''#E6B8E6'', 3) \<and>
     ax_position (fig_axes fig ! 14) = (1, 2) \<and>
     ax_texts (fig_axes fig ! 14) = [(''B03'', Some ''gray'')] \<and>
     ax_spines (fig_axes fig ! 14) = Some (''#cccccc'', 1)"
    by simp
  show ?thesis
    by (rule exI [of _ w'], rule exI [of _ fig]) (intro conjI c sv len rest)
qed


text \<open>
  C2. \<^verbatim>\<open>_apply_well_border\<close> sets one of three borders, the buffer zone first: black of
  width 1 when \<open>has_buffer_zone\<close> is true; else light purple of width 3 when
  \<open>has_aneuploidy\<close> is true; else light grey of width 1. A record whose image is shown
  in the composite gets its border this way.
\<close>

theorem border_style_by_flags:
  "(truthy (dict_get_default result ''has_buffer_zone'' (PyBool False)) \<longrightarrow>
      ax_spines (apply_well_border ax result) = Some (''#000000'', 1)) \<and>
   (\<not> truthy (dict_get_default result ''has_buffer_zone'' (PyBool False)) \<and>
    truthy (dict_get_default result ''has_aneuploidy'' (PyBool False)) \<longrightarrow>
      ax_spines (apply_well_border ax result) = Some (''#E6B8E6'', 3)) \<and>
   (\<not> truthy (dict_get_default result ''has_buffer_zone'' (PyBool False)) \<and>
    \<not> truthy (dict_get_default result ''has_aneuploidy'' (PyBool False)) \<longrightarrow>
      ax_spines (apply_well_border ax result) = Some (''#B0B0B0'', 1)) \<and>
   (truthy (dict_get_default result temp_graph_path (dict_get result ''graph_path'')) \<and>
    os_path_exists ev w (dict_get_default result temp_graph_path (dict_get result ''graph_path'')) =
      Inr True \<and>
    imread_ok ev (dict_get_default result temp_graph_path (dict_get result ''graph_path'')) \<longrightarrow>
      (\<exists>ax'. populate_data_well ev w ax well result = Inr ax' \<and>
             ax_image ax' =
               Some (dict_get_default result temp_graph_path (dict_get result ''graph_path'')) \<and>
             ax_spines ax' = ax_spines (apply_well_border ax result)))"
  by (auto simp: apply_well_border_def populate_data_well_def Let_def)

theorem border_style_by_flags_witness:
  "ax_spines (apply_well_border (new_axes (0, 0)) demo_result) = Some (''#E6B8E6'', 3) \<and>
   ax_spines (apply_well_border (new_axes (0, 0))
                (demo_result(''has_buffer_zone'' \<mapsto> PyBool True))) = Some (''#000000'', 1) \<and>
   ax_spines (apply_well_border (new_axes (0, 0)) [''well'' \<mapsto> PyStr ''C03'']) =
     Some (''#B0B0B0'', 1)"
proof -
  have "ax_spines (apply_well_border (new_axes (0, 0)) demo_result) = Some (''#E6B8E6'', 3)"
    using border_style_by_flags [of demo_result "new_axes (0, 0)"]
    by (simp add: demo_result_def dict_get_default_def)
  moreover have "ax_spines (apply_well_border (new_axes (0, 0))
                (demo_result(''has_buffer_zone'' \<mapsto> PyBool True))) = Some (''#000000'', 1)"
    using border_style_by_flags [of "demo_result(''has_buffer_zone'' \<mapsto> PyBool True)" "new_axes (0, 0)"]
    by (simp add: dict_get_default_def)
  moreover have "ax_spines (apply_well_border (new_axes (0, 0)) [''well'' \<mapsto> PyStr ''C03'']) =
     Some (''#B0B0B0'', 1)"
    using border_style_by_flags [of "[''well'' \<mapsto> PyStr ''C03'']" "new_axes (0, 0)"]
    by (simp add: dict_get_default_def)
  ultimately show ?thesis by blast
qed

text \<open>
  C6. The placeholder of a position without a record is meant to be gridded:
  \<^verbatim>\<open>_populate_empty_well\<close> switches the grid on and puts a \<^verbatim>\<open>MultipleLocator\<close> of the
  configured interval on each axis, under the comment "Turn off tick marks but keep the
  grid". The loop of \<^verbatim>\<open>_create_well_subplots\<close> then calls \<^verbatim>\<open>ax.set_xticks([])\<close> and
  \<^verbatim>\<open>ax.set_yticks([])\<close> on every subplot, which replaces both locators by locators
  without ticks: the placeholder of the figure that is saved has no major tick, hence no
  grid line. Evaluated for the plate that holds the sample record of A01 only, at the
  position of B03 (row 1, column 2, the subplot of index 14): the well id in gray, the
  grey border and the limits are there, the locators of the grid are not.
\<close>

theorem placeholder_grid_ticks_cleared:
  "ax_grid (populate_empty_well demo_config (new_axes (1, 2)) ''B03'') \<and>
   ax_xlocator (populate_empty_well demo_config (new_axes (1, 2)) ''B03'') = MultipleLocator 500 \<and>
   ax_ylocator (populate_empty_well demo_config (new_axes (1, 2)) ''B03'') = MultipleLocator 1000 \<and>
   fig_axes (snd (hd (saved (snd (snd (create_composite_image demo_env demo_config [demo_result]
                                         ''run/plate.png'' demo_world)))))) ! 14 =
     \<lparr> ax_position = (1, 2), ax_facecolor = Some ''#f5f5f5'', ax_image = None, ax_title = None,
       ax_texts = [(''B03'', Some ''gray'')], ax_spines = Some (''#cccccc'', 1),
       ax_limits = Some ((0, 3000), (0, 5000)), ax_grid = True,
       ax_xlocator = FixedLocator [], ax_ylocator = FixedLocator [] \<rparr>"
  by code_simp

section \<open>Loading the raw data\<close>

lemma find_header_row_none:
  "(find_header_row i lines = None) = (\<forall>line \<in> set lines. \<not> is_header_line line)"
  by (induction lines arbitrary: i) auto

lemma find_header_row_first:
  assumes "k < length lines" and "is_header_line (lines ! k)"
    and "\<forall>j < k. \<not> is_header_line (lines ! j)"
  shows "find_header_row i lines = Some (i + k)"
  using assms
proof (induction lines arbitrary: i k)
  case Nil
  then show ?case by simp
next
  case (Cons line lines)
  show ?case
  proof (cases k)
    case 0
    with Cons.prems show ?thesis by simp
  next
    case (Suc m)
    with Cons.prems have m: "m < length lines" and h: "is_header_line (lines ! m)"
      and n: "\<forall>j < m. \<not> is_header_line (lines ! j)" and l: "\<not> is_header_line line"
      by auto
    from Cons.IH [OF m h n, of "Suc i"] l Suc show ?thesis by simp
  qed
qed

lemma filter_upt_eq: "filter (\<lambda>j. j = i) [0..<n] = (if i < n then [i] else [])"
  by (induction n) auto

lemma column_indices_distinct:
  assumes "distinct cols" and "i < length cols"
  shows "column_indices cols (cols ! i) = [i]"
proof -
  have "filter (\<lambda>j. cols ! j = cols ! i) [0..<length cols] =
        filter (\<lambda>j. j = i) [0..<length cols]"
    using assms by (intro filter_cong) (auto simp: nth_eq_iff_index_eq)
  with assms(2) show ?thesis
    by (simp add: column_indices_def filter_upt_eq)
qed

lemma select_required_cols:
  assumes "distinct (df_columns df)"
    and "i1 < length (df_columns df)" and "df_columns df ! i1 = ''Ch1Amplitude''"
    and "i2 < length (df_columns df)" and "df_columns df ! i2 = ''Ch2Amplitude''"
  shows "select_columns df required_cols =
           \<lparr> df_columns = [''Ch1Amplitude'', ''Ch2Amplitude''],
             df_rows = map (\<lambda>r. [cell_at r i1, cell_at r i2]) (df_rows df) \<rparr>"
proof -
  have "column_indices (df_columns df) ''Ch1Amplitude'' = [i1]"
    using column_indices_distinct [OF assms(1,2)] assms(3) by simp
  moreover have "column_indices (df_columns df) ''Ch2Amplitude'' = [i2]"
    using column_indices_distinct [OF assms(1,4)] assms(5) by simp
  ultimately show ?thesis
    using assms(3,5) by (simp add: select_columns_def required_cols_def)
qed

lemma dropna_rows:
  "dropna \<lparr> df_columns = cs, df_rows = rs \<rparr> =
     \<lparr> df_columns = cs, df_rows = filter (\<lambda>row. NaN \<notin> set row) rs \<rparr>"
proof -
  have "list_all (\<lambda>c. c \<noteq> NaN) = (\<lambda>row. NaN \<notin> set row)"
    by (auto simp: list_all_iff fun_eq_iff)
  then show ?thesis by (simp add: dropna_def)
qed

text \<open>
  C7, as stated: \<^verbatim>\<open>None\<close> is returned when no line holds both header names or the parsed
  table lacks a required column, and a data frame otherwise. It fails where
  \<^verbatim>\<open>pd.read_csv\<close> raises: a header line is there, no table lacks a column, and the
  result is \<^verbatim>\<open>None\<close>.
\<close>

theorem load_and_clean_data_counterexample:
  "open_lines unparsed_env ''run/Graphs/../Raw Data/A01.csv'' =
     Some [''Plate export'', ''Well,Ch1Amplitude,Ch2Amplitude'', ''A01,1,2''] \<and>
   is_header_line ''Well,Ch1Amplitude,Ch2Amplitude'' \<and>
   read_csv unparsed_env ''run/Graphs/../Raw Data/A01.csv'' 1 = Inl ParserError \<and>
   load_and_clean_data unparsed_env ''run/Graphs/../Raw Data/A01.csv'' = None"
  by (simp add: unparsed_env_def demo_env_def load_and_clean_data_def is_header_line_def
      sublist_code)

text \<open>
  C7, amended. \<^verbatim>\<open>_load_and_clean_data\<close> returns \<^verbatim>\<open>None\<close> when the file cannot be opened
  or read, when no line holds a name of both channels, when \<^verbatim>\<open>pd.read_csv\<close> (called
  to skip the lines before the first such line) raises, and when the parsed table lacks
  the column \<open>Ch1Amplitude\<close> or \<open>Ch2Amplitude\<close>. Otherwise it returns the table
  restricted to these two columns, in this order, without the rows that hold a missing
  value in one of them.
\<close>

theorem load_and_clean_data_result:
  "(open_lines ev f = None \<longrightarrow> load_and_clean_data ev f = None) \<and>
   (\<forall>lines. open_lines ev f = Some lines \<and> (\<forall>line \<in> set lines. \<not> is_header_line line) \<longrightarrow>
      load_and_clean_data ev f = None) \<and>
   (\<forall>lines k.
      open_lines ev f = Some lines \<and> k < length lines \<and> is_header_line (lines ! k) \<and>
      (\<forall>j < k. \<not> is_header_line (lines ! j)) \<longrightarrow>
      (\<forall>e. read_csv ev f k = Inl e \<longrightarrow> load_and_clean_data ev f = None) \<and>
      (\<forall>df. read_csv ev f k = Inr df \<and>
            (''Ch1Amplitude'' \<notin> set (df_columns df) \<or> ''Ch2Amplitude'' \<notin> set (df_columns df)) \<longrightarrow>
            load_and_clean_data ev f = None) \<and>
      (\<forall>df i1 i2.
         read_csv ev f k = Inr df \<and> distinct (df_columns df) \<and>
         i1 < length (df_columns df) \<and> df_columns df ! i1 = ''Ch1Amplitude'' \<and>
         i2 < length (df_columns df) \<and> df_columns df ! i2 = ''Ch2Amplitude'' \<longrightarrow>
         load_and_clean_data ev f =
           Some \<lparr> df_columns = [''Ch1Amplitude'', ''Ch2Amplitude''],
                  df_rows = filter (\<lambda>row. NaN \<notin> set row)
                              (map (\<lambda>r. [cell_at r i1, cell_at r i2]) (df_rows df)) \<rparr>))"
proof (intro conjI allI impI)
  assume "open_lines ev f = None"
  then show "load_and_clean_data ev f = None"
    by (simp add: load_and_clean_data_def)
next
  fix lines
  assume "open_lines ev f = Some lines \<and> (\<forall>line \<in> set lines. \<not> is_header_line line)"
  then have "open_lines ev f = Some lines" and "find_header_row 0 lines = None"
    by (simp_all add: find_header_row_none)
  then show "load_and_clean_data ev f = None"
    by (simp add: load_and_clean_data_def)
next
  fix lines k e
  assume a: "open_lines ev f = Some lines \<and> k < length lines \<and> is_header_line (lines ! k) \<and>
      (\<forall>j < k. \<not> is_header_line (lines ! j))"
    and r: "read_csv ev f k = Inl e"
  from a have "find_header_row 0 lines = Some k"
    using find_header_row_first [of k lines 0] by simp
  with a r show "load_and_clean_data ev f = None"
    by (simp add: load_and_clean_data_def)
next
  fix lines k df
  assume a: "open_lines ev f = Some lines \<and> k < length lines \<and> is_header_line (lines ! k) \<and>
      (\<forall>j < k. \<not> is_header_line (lines ! j))"
    and r: "read_csv ev f k = Inr df \<and>
            (''Ch1Amplitude'' \<notin> set (df_columns df) \<or> ''Ch2Amplitude'' \<notin> set (df_columns df))"
  from a have "find_header_row 0 lines = Some k"
    using find_header_row_first [of k lines 0] by simp
  with a r show "load_and_clean_data ev f = None"
    by (auto simp: load_and_clean_data_def required_cols_def)
next
  fix lines k df i1 i2
  assume a: "open_lines ev f = Some lines \<and> k < length lines \<and> is_header_line (lines ! k) \<and>
      (\<forall>j < k. \<not> is_header_line (lines ! j))"
    and r: "read_csv ev f k = Inr df \<and> distinct (df_columns df) \<and>
         i1 < length (df_columns df) \<and> df_columns df ! i1 = ''Ch1Amplitude'' \<and>
         i2 < length (df_columns df) \<and> df_columns df ! i2 = ''Ch2Amplitude''"
  from a have h: "find_header_row 0 lines = Some k"
    using find_header_row_first [of k lines 0] by simp
  from r have c1: "''Ch1Amplitude'' \<in> set (df_columns df)"
    and c2: "''Ch2Amplitude'' \<in> set (df_columns df)"
    by (metis nth_mem)+
  from r have sel: "select_columns df required_cols =
           \<lparr> df_columns = [''Ch1Amplitude'', ''Ch2Amplitude''],
             df_rows = map (\<lambda>r. [cell_at r i1, cell_at r i2]) (df_rows df) \<rparr>"
    by (intro select_required_cols) simp_all
  have "load_and_clean_data ev f = Some (dropna (select_columns df required_cols))"
    using a r h c1 c2 by (simp add: load_and_clean_data_def required_cols_def)
  then show "load_and_clean_data ev f =
           Some \<lparr> df_columns = [''Ch1Amplitude'', ''Ch2Amplitude''],
                  df_rows = filter (\<lambda>row. NaN \<notin> set row)
                              (map (\<lambda>r. [cell_at r i1, cell_at r i2]) (df_rows df)) \<rparr>"
    by (simp only: sel dropna_rows)
qed

theorem load_and_clean_data_result_witness:
  "load_and_clean_data demo_env ''run/Graphs/../Raw Data/A01.csv'' =
     Some \<lparr> df_columns = [''Ch1Amplitude'', ''Ch2Amplitude''],
            df_rows = [[Number 1, Number 2]] \<rparr> \<and>
   load_and_clean_data demo_env ''run/Graphs/../Raw Data/B02.csv'' = None"
proof -
  let ?f = "''run/Graphs/../Raw Data/A01.csv''"
  let ?lines = "[''Plate export'', ''Well,Ch1Amplitude,Ch2Amplitude'', ''A01,1,2'']"
  let ?df = "\<lparr> df_columns = [''Well'', ''Ch1Amplitude'', ''Ch2Amplitude''],
                df_rows = [[Text ''A01'', Number 1, Number 2], [Text ''A01'', NaN, Number 3]] \<rparr>"
  have pre: "open_lines demo_env ?f = Some ?lines \<and> 1 < length ?lines \<and>
      is_header_line (?lines ! 1) \<and> (\<forall>j < 1. \<not> is_header_line (?lines ! j))"
    by (simp add: demo_env_def is_header_line_def sublist_code)
  have tab: "read_csv demo_env ?f 1 = Inr ?df \<and> distinct (df_columns ?df) \<and>
      1 < length (df_columns ?df) \<and> df_columns ?df ! 1 = ''Ch1Amplitude'' \<and>
      2 < length (df_columns ?df) \<and> df_columns ?df ! 2 = ''Ch2Amplitude''"
    by (simp add: demo_env_def)
  note cases = load_and_clean_data_result [of demo_env ?f, THEN conjunct2, THEN conjunct2,
      rule_format, of ?lines 1, OF pre]
  note found = cases [THEN conjunct2, THEN conjunct2, rule_format, of ?df 1 2, OF tab]
  have a: "load_and_clean_data demo_env ?f =
     Some \<lparr> df_columns = [''Ch1Amplitude'', ''Ch2Amplitude''], df_rows = [[Number 1, Number 2]] \<rparr>"
    using found by (simp add: cell_at_def)
  have "open_lines demo_env ''run/Graphs/../Raw Data/B02.csv'' = None"
    by (simp add: demo_env_def)
  from load_and_clean_data_result [of demo_env "''run/Graphs/../Raw Data/B02.csv''",
      THEN conjunct1, rule_format, OF this]
  have b: "load_and_clean_data demo_env ''run/Graphs/../Raw Data/B02.csv'' = None" .
  from a b show ?thesis by (rule conjI)
qed

end
